theory Spec2Isabelle
  imports Main "HOL-Library.Word"
begin

section \<open>Buffers, errors and the read cursor\<close>

text \<open>
  A Node \<open>Buffer\<close> is a list of bytes. The source keeps every enum member and the chain
  id as a hex string (\<open>appendHexString\<close> writes the bytes the string denotes,
  \<open>read(n).toString('hex')\<close> reads them back); such a value is modelled by the bytes
  it denotes: an enum member by one byte, the chain id by a byte list.
\<close>

type_synonym byte = "8 word"
type_synonym Buffer = "byte list"

text \<open>
  Every \<open>throw\<close> of the source is a value. \<open>Undefined f\<close> is
  \<open>new Error('"f" is undefined')\<close>; \<open>StringLengthExceeded\<close> is the error the test-suite
  expects from a length-prefixed string of 129 bytes; \<open>ByteArrayTooLong\<close> is the
  assertion of \<open>toArrayLike(Buffer, 'be', 8)\<close> on a number that needs more than 8 bytes;
  \<open>ReadPastEnd\<close> is a read beyond the buffer; \<open>ListTooLong\<close> is a list whose count does
  not fit the 4-byte prefix; \<open>Collaborator\<close> stands for any other error a collaborator
  raises.
\<close>

datatype error =
    Undefined string
  | StringLengthExceeded
  | ByteArrayTooLong
  | ReadPastEnd
  | ListTooLong
  | Collaborator string

definition bindE :: "error + 'a \<Rightarrow> ('a \<Rightarrow> error + 'b) \<Rightarrow> error + 'b" where
  "bindE m f = (case m of Inl e \<Rightarrow> Inl e | Inr x \<Rightarrow> f x)"

text \<open>\<open>if (x === undefined) { throw new Error('"x" is undefined') }\<close>, then use \<open>x\<close>.\<close>

definition required :: "string \<Rightarrow> 'a option \<Rightarrow> error + 'a" where
  "required name v = (case v of None \<Rightarrow> Inl (Undefined name) | Some x \<Rightarrow> Inr x)"

text \<open>
  Modelled from the spec: \<open>BufferArray\<close> (utils.ts is not among the sources) collects
  buffers in the order they are appended and \<open>concatBuffer\<close> concatenates them, with no
  padding.
\<close>

type_synonym BufferArray = "Buffer list"

definition appendHexString :: "BufferArray \<Rightarrow> Buffer \<Rightarrow> BufferArray" where
  "appendHexString bufferArray hexString = bufferArray @ [hexString]"

definition push :: "BufferArray \<Rightarrow> Buffer \<Rightarrow> BufferArray" where
  "push bufferArray b = bufferArray @ [b]"

definition concatBuffer :: "BufferArray \<Rightarrow> Buffer" where
  "concatBuffer bufferArray = concat bufferArray"

text \<open>
  Modelled from the spec: \<open>BufferReader\<close> (utils.ts) is a buffer with a read cursor;
  \<open>read n\<close> returns the next \<open>n\<close> bytes and advances the cursor by \<open>n\<close>; reading past
  the end of the buffer is a fatal format error.
\<close>

record BufferReader =
  buffer :: Buffer
  index :: nat

type_synonym 'a reading = "BufferReader \<Rightarrow> error + ('a \<times> BufferReader)"

definition read :: "BufferReader \<Rightarrow> nat \<Rightarrow> error + (Buffer \<times> BufferReader)" where
  "read r n =
     (if index r + n \<le> length (buffer r)
      then Inr (take n (drop (index r) (buffer r)), r\<lparr>index := index r + n\<rparr>)
      else Inl ReadPastEnd)"

text \<open>\<open>bufferReader.read(1).toString('hex') as E\<close> for an enum \<open>E\<close>: one byte, whatever it is.\<close>

definition readHexByte :: "byte reading" where
  "readHexByte r =
     bindE (read r 1) (\<lambda>(b, r'). case b of [x] \<Rightarrow> Inr (x, r') | _ \<Rightarrow> Inl ReadPastEnd)"

text \<open>The reader whose buffer is \<open>pre @ rest\<close> and whose cursor stands after \<open>pre\<close>.\<close>

definition readerAt :: "Buffer \<Rightarrow> Buffer \<Rightarrow> BufferReader" where
  "readerAt pre rest = \<lparr>buffer = pre @ rest, index = length pre\<rparr>"

text \<open>
  \<open>decodes de bs x\<close>: wherever the bytes \<open>bs\<close> stand in a buffer, \<open>de\<close> started at their
  first byte returns \<open>x\<close> and leaves the cursor right after their last byte.
  \<open>readsBack ser de x y\<close>: \<open>ser x\<close> succeeds and \<open>de\<close> decodes its bytes to \<open>y\<close>.
  \<open>roundtrips ser de x\<close>: \<open>x\<close> is read back as \<open>x\<close> itself.
\<close>

definition decodes :: "'a reading \<Rightarrow> Buffer \<Rightarrow> 'a \<Rightarrow> bool" where
  "decodes de bs x \<longleftrightarrow>
     (\<forall>pre rest. de (readerAt pre (bs @ rest)) = Inr (x, readerAt (pre @ bs) rest))"

definition readsBack ::
  "('a \<Rightarrow> error + Buffer) \<Rightarrow> 'a reading \<Rightarrow> 'a \<Rightarrow> 'a \<Rightarrow> bool" where
  "readsBack ser de x y \<longleftrightarrow> (\<exists>bs. ser x = Inr bs \<and> decodes de bs y)"

definition roundtrips :: "('a \<Rightarrow> error + Buffer) \<Rightarrow> 'a reading \<Rightarrow> 'a \<Rightarrow> bool" where
  "roundtrips ser de x \<longleftrightarrow> readsBack ser de x x"

section \<open>Big numbers\<close>

text \<open>
  A \<open>BigNum\<close> amount, fee rate or nonce is modelled as a natural number (the data model's
  unsigned 64-bit quantities; negative big numbers are not modelled).
  \<open>toArrayLike(Buffer, 'be', 8)\<close> writes the number big-endian on 8 bytes and fails when
  it needs more; \<open>new BigNum(buf.toString('hex'), 16)\<close> reads a big-endian number.
\<close>

fun bigEndian :: "nat \<Rightarrow> nat \<Rightarrow> Buffer" where
  "bigEndian 0 a = []"
| "bigEndian (Suc k) a = bigEndian k (a div 256) @ [of_nat (a mod 256)]"

definition toArrayLike :: "nat \<Rightarrow> nat \<Rightarrow> error + Buffer" where
  "toArrayLike a len = (if a < 256 ^ len then Inr (bigEndian len a) else Inl ByteArrayTooLong)"

definition fromHex16 :: "Buffer \<Rightarrow> nat" where
  "fromHex16 b = foldl (\<lambda>acc x. acc * 256 + unat x) 0 b"

section \<open>Constants\<close>

text \<open>
  Modelled from the spec: constants.ts is not among the sources. Every enum member is a
  single tag byte and the members of one enum are distinct; the chain id is a 4-byte
  value. The values of the version, chain id, anchor mode and post-condition mode are the
  ones the golden transactions of the test-suite show (\<open>00\<close>/\<open>80\<close>, \<open>00000000\<close>,
  \<open>03\<close>, \<open>02\<close>), as are the standard authorization type (\<open>04\<close>) and the payload
  types of a token transfer, a contract deploy and a contract call (\<open>00\<close>, \<open>01\<close>,
  \<open>02\<close>). The results below use only that the members of one enum differ.
\<close>

definition PostConditionType_STX :: byte where "PostConditionType_STX = 0x00"
definition PostConditionType_Fungible :: byte where "PostConditionType_Fungible = 0x01"
definition PostConditionType_NonFungible :: byte where "PostConditionType_NonFungible = 0x02"

definition TransactionVersion_Mainnet :: byte where "TransactionVersion_Mainnet = 0x00"
definition TransactionVersion_Testnet :: byte where "TransactionVersion_Testnet = 0x80"

definition DEFAULT_CHAIN_ID :: Buffer where "DEFAULT_CHAIN_ID = [0x00, 0x00, 0x00, 0x00]"

definition AnchorMode_OnChainOnly :: byte where "AnchorMode_OnChainOnly = 0x01"
definition AnchorMode_OffChainOnly :: byte where "AnchorMode_OffChainOnly = 0x02"
definition AnchorMode_Any :: byte where "AnchorMode_Any = 0x03"

definition PostConditionMode_Allow :: byte where "PostConditionMode_Allow = 0x01"
definition PostConditionMode_Deny :: byte where "PostConditionMode_Deny = 0x02"

definition PayloadType_TokenTransfer :: byte where "PayloadType_TokenTransfer = 0x00"
definition PayloadType_SmartContract :: byte where "PayloadType_SmartContract = 0x01"
definition PayloadType_ContractCall :: byte where "PayloadType_ContractCall = 0x02"
definition PayloadType_PoisonMicroblock :: byte where "PayloadType_PoisonMicroblock = 0x03"
definition PayloadType_Coinbase :: byte where "PayloadType_Coinbase = 0x04"

definition AuthType_Standard :: byte where "AuthType_Standard = 0x04"
definition AuthType_Sponsored :: byte where "AuthType_Sponsored = 0x05"

section \<open>Length-prefixed strings and lists\<close>

text \<open>
  Modelled from the spec: \<open>LengthPrefixedString\<close> (types.ts is not among the sources) is
  a string written as a 1-byte length followed by its UTF-8 bytes; serializing more than
  128 bytes fails (the test-suite: 129 bytes throw). A string is the list of its UTF-8
  bytes, one \<open>char\<close> each.
\<close>

datatype LengthPrefixedString = LengthPrefixedString (content: string)

definition utf8 :: "string \<Rightarrow> Buffer" where
  "utf8 s = map (\<lambda>c. of_nat (of_char c)) s"

definition fromUtf8 :: "Buffer \<Rightarrow> string" where
  "fromUtf8 b = map (\<lambda>x. char_of (unat x)) b"

definition LengthPrefixedString_serialize :: "LengthPrefixedString \<Rightarrow> error + Buffer" where
  "LengthPrefixedString_serialize s =
     (if length (utf8 (content s)) > 128 then Inl StringLengthExceeded
      else Inr (of_nat (length (utf8 (content s))) # utf8 (content s)))"

definition LengthPrefixedString_deserialize :: "LengthPrefixedString reading" where
  "LengthPrefixedString_deserialize bufferReader =
     bindE (readHexByte bufferReader) (\<lambda>(len, bufferReader).
     bindE (read bufferReader (unat len)) (\<lambda>(b, bufferReader).
     Inr (LengthPrefixedString (fromUtf8 b), bufferReader)))"

text \<open>
  Modelled from the spec: \<open>LengthPrefixedList\<close> (types.ts) is written as a 4-byte
  big-endian count followed by the serialized elements in order; reading takes the count
  and then that many elements, each with the element type's own \<open>deserialize\<close>.
\<close>

fun serializeElements :: "('a \<Rightarrow> error + Buffer) \<Rightarrow> 'a list \<Rightarrow> error + BufferArray" where
  "serializeElements ser [] = Inr []"
| "serializeElements ser (x # xs) =
     bindE (ser x) (\<lambda>b. bindE (serializeElements ser xs) (\<lambda>bs. Inr (b # bs)))"

definition LengthPrefixedList_serialize :: "('a \<Rightarrow> error + Buffer) \<Rightarrow> 'a list \<Rightarrow> error + Buffer" where
  "LengthPrefixedList_serialize ser xs =
     (if length xs \<ge> 2 ^ 32 then Inl ListTooLong
      else bindE (serializeElements ser xs) (\<lambda>bs.
           Inr (concatBuffer (bigEndian 4 (length xs) # bs))))"

fun deserializeElements :: "'a reading \<Rightarrow> nat \<Rightarrow> 'a list reading" where
  "deserializeElements de 0 bufferReader = Inr ([], bufferReader)"
| "deserializeElements de (Suc n) bufferReader =
     bindE (de bufferReader) (\<lambda>(x, bufferReader).
     bindE (deserializeElements de n bufferReader) (\<lambda>(xs, bufferReader).
     Inr (x # xs, bufferReader)))"

definition LengthPrefixedList_deserialize :: "'a reading \<Rightarrow> 'a list reading" where
  "LengthPrefixedList_deserialize de bufferReader =
     bindE (read bufferReader 4) (\<lambda>(b, bufferReader).
     deserializeElements de (fromHex16 b) bufferReader)"

section \<open>Post-conditions (postcondition.ts)\<close>

text \<open>
  The class has six optional fields. The principal and the asset info are values of
  types.ts; their types are parameters, and their \<open>serialize\<close> and \<open>deserialize\<close> are
  collaborators passed in a record.
\<close>

record ('pr, 'ai) PostCondition =
  postConditionType :: "byte option"
  principal :: "'pr option"
  conditionCode :: "byte option"
  assetInfo :: "'ai option"
  assetName :: "LengthPrefixedString option"
  amount :: "nat option"

record ('pr, 'ai) types_ts =
  Principal_serialize :: "'pr \<Rightarrow> error + Buffer"
  Principal_deserialize :: "'pr reading"
  AssetInfo_serialize :: "'ai \<Rightarrow> error + Buffer"
  AssetInfo_deserialize :: "'ai reading"

text \<open>The constructor of the base class and the three variant constructors.\<close>

definition PostCondition_new ::
  "byte option \<Rightarrow> 'pr option \<Rightarrow> byte option \<Rightarrow> nat option \<Rightarrow> 'ai option \<Rightarrow> string option
   \<Rightarrow> ('pr, 'ai) PostCondition" where
  "PostCondition_new postConditionType' principal' conditionCode' amount' assetInfo' assetName' =
     \<lparr>postConditionType = postConditionType',
      principal = principal',
      conditionCode = conditionCode',
      assetInfo = assetInfo',
      assetName = (case assetName' of Some n \<Rightarrow> Some (LengthPrefixedString n) | None \<Rightarrow> None),
      amount = amount'\<rparr>"

definition STXPostCondition ::
  "'pr option \<Rightarrow> byte option \<Rightarrow> nat option \<Rightarrow> ('pr, 'ai) PostCondition" where
  "STXPostCondition principal' conditionCode' amount' =
     PostCondition_new (Some PostConditionType_STX) principal' conditionCode' amount' None None"

definition FungiblePostCondition ::
  "'pr option \<Rightarrow> byte option \<Rightarrow> nat option \<Rightarrow> 'ai option \<Rightarrow> ('pr, 'ai) PostCondition" where
  "FungiblePostCondition principal' conditionCode' amount' assetInfo' =
     PostCondition_new (Some PostConditionType_Fungible) principal' conditionCode' amount'
       assetInfo' None"

definition NonFungiblePostCondition ::
  "'pr option \<Rightarrow> byte option \<Rightarrow> 'ai option \<Rightarrow> string option \<Rightarrow> ('pr, 'ai) PostCondition" where
  "NonFungiblePostCondition principal' conditionCode' assetInfo' assetName' =
     PostCondition_new (Some PostConditionType_NonFungible) principal' conditionCode' None
       assetInfo' assetName'"

text \<open>
  \<open>serialize\<close>: the checks and the appends in the order of the source; the first
  \<open>throw\<close> reached, or the first error of a collaborator's \<open>serialize\<close>, is the result.
\<close>

definition PostCondition_serialize ::
  "('pr, 'ai, 'm) types_ts_scheme \<Rightarrow> ('pr, 'ai) PostCondition \<Rightarrow> error + Buffer" where
  "PostCondition_serialize T this =
     (let bufferArray = [] in
      bindE (required ''postConditionType'' (postConditionType this)) (\<lambda>pct.
      let bufferArray = appendHexString bufferArray [pct] in
      bindE (required ''principal'' (principal this)) (\<lambda>p.
      bindE (Principal_serialize T p) (\<lambda>b.
      let bufferArray = push bufferArray b in
      bindE (if pct = PostConditionType_Fungible \<or> pct = PostConditionType_NonFungible
             then bindE (required ''assetInfo'' (assetInfo this)) (\<lambda>ai.
                  bindE (AssetInfo_serialize T ai) (\<lambda>b.
                  Inr (push bufferArray b)))
             else Inr bufferArray) (\<lambda>bufferArray.
      bindE (if pct = PostConditionType_NonFungible
             then bindE (required ''assetName'' (assetName this)) (\<lambda>n.
                  bindE (LengthPrefixedString_serialize n) (\<lambda>b.
                  Inr (push bufferArray b)))
             else Inr bufferArray) (\<lambda>bufferArray.
      bindE (required ''conditionCode'' (conditionCode this)) (\<lambda>cc.
      let bufferArray = appendHexString bufferArray [cc] in
      bindE (if pct = PostConditionType_STX \<or> pct = PostConditionType_Fungible
             then bindE (required ''amount'' (amount this)) (\<lambda>a.
                  bindE (toArrayLike a 8) (\<lambda>b.
                  Inr (push bufferArray b)))
             else Inr bufferArray) (\<lambda>bufferArray.
      Inr (concatBuffer bufferArray)))))))))"

text \<open>
  \<open>deserialize\<close> assigns to the fields of \<open>this\<close> as it reads; the result is the object
  after the last assignment together with the reader. A field the variant does not have
  is not assigned and keeps the value \<open>this\<close> had.
\<close>

definition PostCondition_deserialize ::
  "('pr, 'ai, 'm) types_ts_scheme \<Rightarrow> ('pr, 'ai) PostCondition
   \<Rightarrow> ('pr, 'ai) PostCondition reading" where
  "PostCondition_deserialize T this bufferReader =
     bindE (readHexByte bufferReader) (\<lambda>(pct, bufferReader).
     let this = this\<lparr>postConditionType := Some pct\<rparr> in
     bindE (Principal_deserialize T bufferReader) (\<lambda>(p, bufferReader).
     let this = this\<lparr>principal := Some p\<rparr> in
     bindE (if pct = PostConditionType_Fungible \<or> pct = PostConditionType_NonFungible
            then bindE (AssetInfo_deserialize T bufferReader) (\<lambda>(ai, bufferReader).
                 Inr (this\<lparr>assetInfo := Some ai\<rparr>, bufferReader))
            else Inr (this, bufferReader)) (\<lambda>(this, bufferReader).
     bindE (if pct = PostConditionType_NonFungible
            then bindE (LengthPrefixedString_deserialize bufferReader) (\<lambda>(n, bufferReader).
                 Inr (this\<lparr>assetName := Some n\<rparr>, bufferReader))
            else Inr (this, bufferReader)) (\<lambda>(this, bufferReader).
     bindE (readHexByte bufferReader) (\<lambda>(cc, bufferReader).
     let this = this\<lparr>conditionCode := Some cc\<rparr> in
     if pct = PostConditionType_STX \<or> pct = PostConditionType_Fungible
     then bindE (read bufferReader 8) (\<lambda>(b, bufferReader).
          Inr (this\<lparr>amount := Some (fromHex16 b)\<rparr>, bufferReader))
     else Inr (this, bufferReader))))))"

text \<open>
  Modelled from the spec: the static \<open>deserialize\<close> of \<open>StacksMessage\<close> (message.ts is not
  among the sources) makes an object with the class's constructor called without
  arguments and runs the instance's \<open>deserialize\<close> on it.
\<close>

definition PostCondition_empty :: "('pr, 'ai) PostCondition" where
  "PostCondition_empty = PostCondition_new None None None None None None"

definition PostCondition_read ::
  "('pr, 'ai, 'm) types_ts_scheme \<Rightarrow> ('pr, 'ai) PostCondition reading" where
  "PostCondition_read T bufferReader = PostCondition_deserialize T PostCondition_empty bufferReader"

section \<open>Payload and authorization: what transaction.ts uses of them\<close>

text \<open>
  Modelled from the spec: payload.ts and authorization.ts are not among the sources.
  A payload starts with its \<open>payloadType\<close> tag; the fields of each variant are the
  extension of the record. An authorization has an \<open>authType\<close> and the origin's
  \<open>spendingCondition\<close>; a spending condition has a \<open>feeRate\<close>, a \<open>nonce\<close> and a
  \<open>signature\<close>; each keeps its other fields (hash mode, signer, key encoding, sponsor
  condition) in the extension of the record. These are the only fields transaction.ts
  reads or writes.
\<close>

record Payload =
  payloadType :: "byte option"

record 'sig SpendingCondition =
  feeRate :: "nat option"
  nonce :: "nat option"
  signature :: 'sig

record 'cond Authorization =
  authType :: "byte option"
  spendingCondition :: "'cond option"

text \<open>
  The collaborators of a transaction besides those of a post-condition: the codecs of the
  authorization and the payload, \<open>intoInitialSighashAuth\<close> (the authorization with
  its signatures stripped) and the hash \<open>txidFromData\<close>.
\<close>

record ('pr, 'ai, 'auth, 'payload) collaborators = "('pr, 'ai) types_ts" +
  Authorization_serialize :: "'auth \<Rightarrow> error + Buffer"
  Authorization_deserialize :: "'auth reading"
  Payload_serialize :: "'payload \<Rightarrow> error + Buffer"
  Payload_deserialize :: "'payload reading"
  intoInitialSighashAuth :: "'auth \<Rightarrow> error + 'auth"
  txidFromData :: "Buffer \<Rightarrow> string"

text \<open>
  The collaborators of signing: the static \<open>SpendingCondition.nextSignature\<close>, which
  makes the one call to the signing primitive and returns the signature and the next
  sighash, and the test \<open>singleSig\<close> of a condition. Every call of \<open>nextSignature\<close> is
  recorded, with its arguments, in the list the signing functions return.
\<close>

record ('sig, 'key, 'cond) signing =
  nextSignature :: "string \<Rightarrow> byte \<Rightarrow> nat \<Rightarrow> nat \<Rightarrow> 'key \<Rightarrow> error + ('sig \<times> string)"
  singleSig :: "'cond \<Rightarrow> bool"

datatype 'key cryptoCall = NextSignature string byte nat nat 'key

section \<open>Transactions (transaction.ts)\<close>

record ('auth, 'payload, 'pr, 'ai) StacksTransaction =
  version :: "byte option"
  chainId :: "Buffer option"
  auth :: "'auth option"
  anchorMode :: "byte option"
  payload :: "'payload option"
  postConditionMode :: byte
  postConditions :: "('pr, 'ai) PostCondition list"

text \<open>
  The constructor: the three arguments, the defaults, and the anchor mode, assigned only
  inside \<open>if (payload)\<close> by a switch on the payload's type.
\<close>

definition StacksTransaction_new ::
  "byte option \<Rightarrow> 'auth option \<Rightarrow> ('pm Payload_scheme) option
   \<Rightarrow> ('auth, 'pm Payload_scheme, 'pr, 'ai) StacksTransaction" where
  "StacksTransaction_new version' auth' payload' =
     (let this = \<lparr>version = version',
                  chainId = Some DEFAULT_CHAIN_ID,
                  auth = auth',
                  anchorMode = None,
                  payload = payload',
                  postConditionMode = PostConditionMode_Deny,
                  postConditions = []\<rparr>
      in case payload' of
           None \<Rightarrow> this
         | Some p \<Rightarrow>
             (if payloadType p = Some PayloadType_Coinbase
              then this\<lparr>anchorMode := Some AnchorMode_OnChainOnly\<rparr>
              else if payloadType p = Some PayloadType_PoisonMicroblock
              then this\<lparr>anchorMode := Some AnchorMode_OnChainOnly\<rparr>
              else this\<lparr>anchorMode := Some AnchorMode_Any\<rparr>))"

definition addPostCondition ::
  "('auth, 'payload, 'pr, 'ai) StacksTransaction \<Rightarrow> ('pr, 'ai) PostCondition
   \<Rightarrow> ('auth, 'payload, 'pr, 'ai) StacksTransaction" where
  "addPostCondition this postCondition =
     this\<lparr>postConditions := postConditions this @ [postCondition]\<rparr>"

text \<open>
  \<open>serialize\<close>: the five checks first, in the order of the source, then the seven
  appends. It assigns to no field of \<open>this\<close>, so its only result is the buffer or the
  error.
\<close>

definition StacksTransaction_serialize ::
  "('pr, 'ai, 'auth, 'payload, 'm) collaborators_scheme
   \<Rightarrow> ('auth, 'payload, 'pr, 'ai) StacksTransaction \<Rightarrow> error + Buffer" where
  "StacksTransaction_serialize C this =
     bindE (required ''version'' (version this)) (\<lambda>v.
     bindE (required ''chainId'' (chainId this)) (\<lambda>cid.
     bindE (required ''auth'' (auth this)) (\<lambda>a.
     bindE (required ''anchorMode'' (anchorMode this)) (\<lambda>am.
     bindE (required ''payload'' (payload this)) (\<lambda>pl.
     let bufferArray = [] in
     let bufferArray = appendHexString bufferArray [v] in
     let bufferArray = appendHexString bufferArray cid in
     bindE (Authorization_serialize C a) (\<lambda>b.
     let bufferArray = push bufferArray b in
     let bufferArray = appendHexString bufferArray [am] in
     let bufferArray = appendHexString bufferArray [postConditionMode this] in
     bindE (LengthPrefixedList_serialize (PostCondition_serialize C) (postConditions this)) (\<lambda>b.
     let bufferArray = push bufferArray b in
     bindE (Payload_serialize C pl) (\<lambda>b.
     let bufferArray = push bufferArray b in
     Inr (concatBuffer bufferArray)))))))))"

definition StacksTransaction_deserialize ::
  "('pr, 'ai, 'auth, 'payload, 'm) collaborators_scheme
   \<Rightarrow> ('auth, 'payload, 'pr, 'ai) StacksTransaction
   \<Rightarrow> ('auth, 'payload, 'pr, 'ai) StacksTransaction reading" where
  "StacksTransaction_deserialize C this bufferReader =
     bindE (readHexByte bufferReader) (\<lambda>(v, bufferReader).
     let this = this\<lparr>version := Some (if v = TransactionVersion_Mainnet
                                        then TransactionVersion_Mainnet
                                        else TransactionVersion_Testnet)\<rparr> in
     bindE (read bufferReader 4) (\<lambda>(cid, bufferReader).
     let this = this\<lparr>chainId := Some cid\<rparr> in
     bindE (Authorization_deserialize C bufferReader) (\<lambda>(a, bufferReader).
     let this = this\<lparr>auth := Some a\<rparr> in
     bindE (readHexByte bufferReader) (\<lambda>(am, bufferReader).
     let this = this\<lparr>anchorMode := Some am\<rparr> in
     bindE (readHexByte bufferReader) (\<lambda>(pcm, bufferReader).
     let this = this\<lparr>postConditionMode := pcm\<rparr> in
     bindE (LengthPrefixedList_deserialize (PostCondition_read C) bufferReader)
       (\<lambda>(pcs, bufferReader).
     let this = this\<lparr>postConditions := pcs\<rparr> in
     bindE (Payload_deserialize C bufferReader) (\<lambda>(pl, bufferReader).
     Inr (this\<lparr>payload := Some pl\<rparr>, bufferReader))))))))"

text \<open>The static \<open>deserialize\<close>: on \<open>new StacksTransaction()\<close>.\<close>

definition StacksTransaction_read ::
  "('pr, 'ai, 'auth, 'pm Payload_scheme, 'm) collaborators_scheme
   \<Rightarrow> ('auth, 'pm Payload_scheme, 'pr, 'ai) StacksTransaction reading" where
  "StacksTransaction_read C bufferReader =
     StacksTransaction_deserialize C (StacksTransaction_new None None None) bufferReader"

definition txid ::
  "('pr, 'ai, 'auth, 'payload, 'm) collaborators_scheme
   \<Rightarrow> ('auth, 'payload, 'pr, 'ai) StacksTransaction \<Rightarrow> error + string" where
  "txid C this =
     bindE (StacksTransaction_serialize C this) (\<lambda>serialized.
     Inr (txidFromData C serialized))"

text \<open>
  \<open>_.cloneDeep\<close> makes a copy that shares nothing with the original: the same value,
  and every later assignment goes to the copy. \<open>signBegin\<close> returns its result together
  with \<open>this\<close> as the call leaves it.
\<close>

definition cloneDeep :: "'a \<Rightarrow> 'a" where
  "cloneDeep x = x"

definition signBegin ::
  "('pr, 'ai, 'auth, 'payload, 'm) collaborators_scheme
   \<Rightarrow> ('auth, 'payload, 'pr, 'ai) StacksTransaction
   \<Rightarrow> (error + string) \<times> ('auth, 'payload, 'pr, 'ai) StacksTransaction" where
  "signBegin C this =
     (let tx = cloneDeep this in
      (bindE (required ''auth'' (auth tx)) (\<lambda>a.
       bindE (intoInitialSighashAuth C a) (\<lambda>a'.
       let tx = tx\<lparr>auth := Some a'\<rparr> in
       txid C tx)),
       this))"

text \<open>
  \<open>signAndAppend\<close> returns the next sighash or the error, the condition as the call
  leaves it, and the calls made to \<open>nextSignature\<close>.
\<close>

definition signAndAppend ::
  "('sig, 'key, ('sig, 'cm) SpendingCondition_scheme) signing
   \<Rightarrow> ('sig, 'cm) SpendingCondition_scheme \<Rightarrow> string \<Rightarrow> byte \<Rightarrow> 'key
   \<Rightarrow> (error + string) \<times> ('sig, 'cm) SpendingCondition_scheme \<times> 'key cryptoCall list" where
  "signAndAppend S condition curSigHash authType' privateKey =
     (case feeRate condition of
        None \<Rightarrow> (Inl (Undefined ''condition.feeRate''), condition, [])
      | Some f \<Rightarrow>
          (case nonce condition of
             None \<Rightarrow> (Inl (Undefined ''condition.nonce''), condition, [])
           | Some n \<Rightarrow>
               (case nextSignature S curSigHash authType' f n privateKey of
                  Inl e \<Rightarrow> (Inl e, condition, [NextSignature curSigHash authType' f n privateKey])
                | Inr (nextSig, nextSigHash) \<Rightarrow>
                    (Inr nextSigHash,
                     (if singleSig S condition then condition\<lparr>signature := nextSig\<rparr>
                      else condition),
                     [NextSignature curSigHash authType' f n privateKey]))))"

text \<open>
  \<open>signNextOrigin\<close> passes the object \<open>this.auth.spendingCondition\<close> itself, so what
  \<open>signAndAppend\<close> writes to the condition is written to the transaction.
\<close>

definition signNextOrigin ::
  "('sig, 'key, ('sig, 'cm) SpendingCondition_scheme) signing
   \<Rightarrow> ((('sig, 'cm) SpendingCondition_scheme, 'am) Authorization_scheme, 'payload, 'pr, 'ai)
        StacksTransaction
   \<Rightarrow> string \<Rightarrow> 'key
   \<Rightarrow> (error + string)
      \<times> ((('sig, 'cm) SpendingCondition_scheme, 'am) Authorization_scheme, 'payload, 'pr, 'ai)
          StacksTransaction
      \<times> 'key cryptoCall list" where
  "signNextOrigin S this sigHash privateKey =
     (case auth this of
        None \<Rightarrow> (Inl (Undefined ''auth''), this, [])
      | Some a \<Rightarrow>
          (case spendingCondition a of
             None \<Rightarrow> (Inl (Undefined ''auth.spendingCondition''), this, [])
           | Some c \<Rightarrow>
               (case authType a of
                  None \<Rightarrow> (Inl (Undefined ''auth.authType''), this, [])
                | Some t \<Rightarrow>
                    (case signAndAppend S c sigHash t privateKey of
                       (res, c', calls) \<Rightarrow>
                         (res, this\<lparr>auth := Some (a\<lparr>spendingCondition := Some c'\<rparr>)\<rparr>,
                          calls)))))"

section \<open>Well-formed values and missing fields\<close>

text \<open>
  The required fields of a post-condition are present and within bounds: the type, the
  principal and the condition code; the asset info for Fungible and NonFungible; the
  asset name, of at most 128 bytes, for NonFungible; the amount, below \<open>2 ^ 64\<close>, for STX
  and Fungible. A principal or asset info is within bounds when its own codec round-trips
  it.
\<close>

definition PostCondition_requiredPresent ::
  "('pr, 'ai, 'm) types_ts_scheme \<Rightarrow> ('pr, 'ai) PostCondition \<Rightarrow> bool" where
  "PostCondition_requiredPresent T pc \<longleftrightarrow>
     (\<exists>pct p cc.
        postConditionType pc = Some pct \<and>
        principal pc = Some p \<and>
        roundtrips (Principal_serialize T) (Principal_deserialize T) p \<and>
        conditionCode pc = Some cc \<and>
        (pct = PostConditionType_Fungible \<or> pct = PostConditionType_NonFungible \<longrightarrow>
           (\<exists>ai. assetInfo pc = Some ai \<and>
                 roundtrips (AssetInfo_serialize T) (AssetInfo_deserialize T) ai)) \<and>
        (pct = PostConditionType_NonFungible \<longrightarrow>
           (\<exists>n. assetName pc = Some n \<and> length (utf8 (content n)) \<le> 128)) \<and>
        (pct = PostConditionType_STX \<or> pct = PostConditionType_Fungible \<longrightarrow>
           (\<exists>a. amount pc = Some a \<and> a < 2 ^ 64)))"

text \<open>No field is set that the post-condition's variant does not have.\<close>

definition PostCondition_noForeignField :: "('pr, 'ai) PostCondition \<Rightarrow> bool" where
  "PostCondition_noForeignField pc \<longleftrightarrow>
     (\<forall>pct. postConditionType pc = Some pct \<longrightarrow>
        (pct \<noteq> PostConditionType_Fungible \<and> pct \<noteq> PostConditionType_NonFungible \<longrightarrow>
           assetInfo pc = None) \<and>
        (pct \<noteq> PostConditionType_NonFungible \<longrightarrow> assetName pc = None) \<and>
        (pct \<noteq> PostConditionType_STX \<and> pct \<noteq> PostConditionType_Fungible \<longrightarrow>
           amount pc = None))"

text \<open>
  The post-condition with the fields its variant does not have made absent; a
  post-condition without such fields is left as it is.
\<close>

definition PostCondition_variantFields ::
  "('pr, 'ai) PostCondition \<Rightarrow> ('pr, 'ai) PostCondition" where
  "PostCondition_variantFields pc =
     (case postConditionType pc of
        None \<Rightarrow> pc
      | Some pct \<Rightarrow>
          pc\<lparr>assetInfo :=
               (if pct = PostConditionType_Fungible \<or> pct = PostConditionType_NonFungible
                then assetInfo pc else None),
             assetName :=
               (if pct = PostConditionType_NonFungible then assetName pc else None),
             amount :=
               (if pct = PostConditionType_STX \<or> pct = PostConditionType_Fungible
                then amount pc else None)\<rparr>)"

text \<open>
  A well-formed transaction: the version is one of the two members of the enum, the chain
  id has 4 bytes, the authorization, the anchor mode and the payload are present, the
  authorization and the payload are round-tripped by their own codecs, the number of
  post-conditions fits the 4-byte count, and every post-condition has its required fields.
  \<open>StacksTransaction_variantFields\<close> restricts each post-condition to the fields of its
  variant.
\<close>

definition StacksTransaction_wellFormed ::
  "('pr, 'ai, 'auth, 'payload, 'm) collaborators_scheme
   \<Rightarrow> ('auth, 'payload, 'pr, 'ai) StacksTransaction \<Rightarrow> bool" where
  "StacksTransaction_wellFormed C tx \<longleftrightarrow>
     (version tx = Some TransactionVersion_Mainnet \<or>
      version tx = Some TransactionVersion_Testnet) \<and>
     (\<exists>cid. chainId tx = Some cid \<and> length cid = 4) \<and>
     (\<exists>a. auth tx = Some a \<and>
          roundtrips (Authorization_serialize C) (Authorization_deserialize C) a) \<and>
     (\<exists>am. anchorMode tx = Some am) \<and>
     (\<exists>pl. payload tx = Some pl \<and>
          roundtrips (Payload_serialize C) (Payload_deserialize C) pl) \<and>
     length (postConditions tx) < 2 ^ 32 \<and>
     (\<forall>pc \<in> set (postConditions tx). PostCondition_requiredPresent C pc)"

definition StacksTransaction_variantFields ::
  "('auth, 'payload, 'pr, 'ai) StacksTransaction
   \<Rightarrow> ('auth, 'payload, 'pr, 'ai) StacksTransaction" where
  "StacksTransaction_variantFields tx =
     tx\<lparr>postConditions := map PostCondition_variantFields (postConditions tx)\<rparr>"

text \<open>
  The names of the required fields that are absent, in the order in which \<open>serialize\<close>
  checks them.
\<close>

definition absent :: "string \<Rightarrow> 'a option \<Rightarrow> string list" where
  "absent name v = (case v of None \<Rightarrow> [name] | Some x \<Rightarrow> [])"



section \<open>An instance of the collaborators\<close>

text \<open>
  Modelled from the spec: a small instance of the collaborators, for running the
  functions above on concrete values. A principal and an asset info are each carried as
  one length-prefixed string. The payload is a coinbase payload: its tag and a 32-byte
  buffer. The authorization is written as its type byte followed by the condition's
  nonce (8 bytes), fee rate (8 bytes) and 65-byte signature. Stripping an authorization
  zeroes the signature. The hash is a one-character checksum, signing repeats the key
  byte 65 times, and every condition is single-sig.
\<close>

record CoinbasePayload = Payload +
  coinbaseBuffer :: Buffer

definition CoinbasePayload_serialize :: "CoinbasePayload \<Rightarrow> error + Buffer" where
  "CoinbasePayload_serialize p =
     bindE (required ''payloadType'' (payloadType p)) (\<lambda>t.
     if length (coinbaseBuffer p) = 32 then Inr (t # coinbaseBuffer p)
     else Inl (Collaborator ''coinbase buffer length''))"

definition CoinbasePayload_deserialize :: "CoinbasePayload reading" where
  "CoinbasePayload_deserialize bufferReader =
     bindE (readHexByte bufferReader) (\<lambda>(t, bufferReader).
     bindE (read bufferReader 32) (\<lambda>(b, bufferReader).
     Inr (\<lparr>payloadType = Some t, coinbaseBuffer = b\<rparr>, bufferReader)))"

type_synonym SingleSigAuthorization = "(Buffer SpendingCondition) Authorization"

definition SingleSigAuthorization_serialize :: "SingleSigAuthorization \<Rightarrow> error + Buffer" where
  "SingleSigAuthorization_serialize a =
     bindE (required ''authType'' (authType a)) (\<lambda>t.
     bindE (required ''spendingCondition'' (spendingCondition a)) (\<lambda>c.
     bindE (required ''nonce'' (nonce c)) (\<lambda>n.
     bindE (required ''feeRate'' (feeRate c)) (\<lambda>f.
     bindE (toArrayLike n 8) (\<lambda>nb.
     bindE (toArrayLike f 8) (\<lambda>fb.
     if length (signature c) = 65 then Inr (t # nb @ fb @ signature c)
     else Inl (Collaborator ''signature length'')))))))"

definition SingleSigAuthorization_deserialize :: "SingleSigAuthorization reading" where
  "SingleSigAuthorization_deserialize bufferReader =
     bindE (readHexByte bufferReader) (\<lambda>(t, bufferReader).
     bindE (read bufferReader 8) (\<lambda>(nb, bufferReader).
     bindE (read bufferReader 8) (\<lambda>(fb, bufferReader).
     bindE (read bufferReader 65) (\<lambda>(s, bufferReader).
     Inr (\<lparr>authType = Some t,
           spendingCondition =
             Some \<lparr>feeRate = Some (fromHex16 fb), nonce = Some (fromHex16 nb), signature = s\<rparr>\<rparr>,
          bufferReader)))))"

definition SingleSigAuthorization_clear :: "SingleSigAuthorization \<Rightarrow> error + SingleSigAuthorization" where
  "SingleSigAuthorization_clear a =
     Inr (a\<lparr>spendingCondition :=
              map_option (\<lambda>c. c\<lparr>signature := replicate 65 0\<rparr>) (spendingCondition a)\<rparr>)"

definition checksum :: "Buffer \<Rightarrow> string" where
  "checksum b = [char_of (sum_list (map unat b))]"

definition instance_collaborators ::
  "(LengthPrefixedString, LengthPrefixedString, SingleSigAuthorization, CoinbasePayload)
   collaborators" where
  "instance_collaborators =
     \<lparr>Principal_serialize = LengthPrefixedString_serialize,
      Principal_deserialize = LengthPrefixedString_deserialize,
      AssetInfo_serialize = LengthPrefixedString_serialize,
      AssetInfo_deserialize = LengthPrefixedString_deserialize,
      Authorization_serialize = SingleSigAuthorization_serialize,
      Authorization_deserialize = SingleSigAuthorization_deserialize,
      Payload_serialize = CoinbasePayload_serialize,
      Payload_deserialize = CoinbasePayload_deserialize,
      intoInitialSighashAuth = SingleSigAuthorization_clear,
      txidFromData = checksum\<rparr>"

definition instance_signing :: "(Buffer, byte, Buffer SpendingCondition) signing" where
  "instance_signing =
     \<lparr>nextSignature = (\<lambda>curSigHash authType' feeRate' nonce' privateKey.
                         Inr (replicate 65 privateKey, curSigHash @ ''+'')),
      singleSig = (\<lambda>condition. True)\<rparr>"

text \<open>
  Values of the instance: a principal, an asset info, an unsigned single-sig condition in
  a standard authorization, a coinbase payload, and a testnet transaction with one STX
  post-condition.
\<close>

definition instance_principal :: LengthPrefixedString where
  "instance_principal = LengthPrefixedString ''alice''"

definition instance_assetInfo :: LengthPrefixedString where
  "instance_assetInfo = LengthPrefixedString ''token''"

definition instance_condition :: "Buffer SpendingCondition" where
  "instance_condition = \<lparr>feeRate = Some 0, nonce = Some 0, signature = replicate 65 0\<rparr>"

definition instance_authorization :: SingleSigAuthorization where
  "instance_authorization =
     \<lparr>authType = Some AuthType_Standard, spendingCondition = Some instance_condition\<rparr>"

definition instance_payload :: CoinbasePayload where
  "instance_payload = \<lparr>payloadType = Some PayloadType_Coinbase, coinbaseBuffer = replicate 32 0\<rparr>"

text \<open>
  Post-conditions of the instance. \<open>instance_foreign\<close> is made with the constructor of the
  base class: an STX post-condition that also carries an asset info.
  \<open>instance_unnamed\<close> is a NonFungible post-condition without a condition code whose
  asset name has 129 bytes.
\<close>

definition instance_stx :: "(LengthPrefixedString, LengthPrefixedString) PostCondition" where
  "instance_stx = STXPostCondition (Some instance_principal) (Some 0x03) (Some 1000000)"

definition instance_fungible :: "(LengthPrefixedString, LengthPrefixedString) PostCondition" where
  "instance_fungible =
     FungiblePostCondition (Some instance_principal) (Some 0x03) (Some 1000000)
       (Some instance_assetInfo)"

definition instance_nonFungible ::
  "(LengthPrefixedString, LengthPrefixedString) PostCondition" where
  "instance_nonFungible =
     NonFungiblePostCondition (Some instance_principal) (Some 0x10) (Some instance_assetInfo)
       (Some ''nft'')"

definition instance_foreign :: "(LengthPrefixedString, LengthPrefixedString) PostCondition" where
  "instance_foreign =
     PostCondition_new (Some PostConditionType_STX) (Some instance_principal) (Some 0x03)
       (Some 1000000) (Some instance_assetInfo) None"


type_synonym InstanceTransaction =
  "(SingleSigAuthorization, CoinbasePayload, LengthPrefixedString, LengthPrefixedString)
   StacksTransaction"

definition instance_transaction :: InstanceTransaction where
  "instance_transaction =
     addPostCondition
       (StacksTransaction_new (Some TransactionVersion_Testnet) (Some instance_authorization)
          (Some instance_payload))
       instance_stx"

text \<open>The transaction of the instance after the origin has signed with the key byte 7.\<close>

definition instance_signed :: InstanceTransaction where
  "instance_signed =
     instance_transaction
       \<lparr>auth := Some (instance_authorization
                       \<lparr>spendingCondition :=
                          Some (instance_condition\<lparr>signature := replicate 65 7\<rparr>)\<rparr>)\<rparr>"

section \<open>Reading what was written\<close>

lemma read_readerAt:
  "length bs = n \<Longrightarrow> read (readerAt pre (bs @ rest)) n = Inr (bs, readerAt (pre @ bs) rest)"
  by (auto simp: read_def readerAt_def)

lemma readHexByte_readerAt:
  "readHexByte (readerAt pre (x # rest)) = Inr (x, readerAt (pre @ [x]) rest)"
  using read_readerAt [of "[x]" 1 pre rest] by (simp add: readHexByte_def bindE_def)

lemma length_bigEndian: "length (bigEndian k a) = k"
  by (induction k arbitrary: a) auto

lemma fromHex16_snoc: "fromHex16 (b @ [x]) = fromHex16 b * 256 + unat x"
  by (simp add: fromHex16_def)

lemma fromHex16_bigEndian: "a < 256 ^ k \<Longrightarrow> fromHex16 (bigEndian k a) = a"
proof (induction k arbitrary: a)
  case 0
  then show ?case by (simp add: fromHex16_def)
next
  case (Suc k)
  have "a div 256 < 256 ^ k" using Suc.prems by (simp add: less_mult_imp_div_less mult.commute)
  then have "fromHex16 (bigEndian k (a div 256)) = a div 256" by (rule Suc.IH)
  moreover have "unat (of_nat (a mod 256) :: byte) = a mod 256"
    by (simp add: unat_of_nat)
  ultimately show ?case by (simp add: fromHex16_snoc)
qed

lemma fromUtf8_utf8: "fromUtf8 (utf8 s) = s"
  by (induction s) (auto simp: fromUtf8_def utf8_def unat_of_nat)

lemma LengthPrefixedString_decodes:
  assumes "LengthPrefixedString_serialize s = Inr bs"
  shows "decodes LengthPrefixedString_deserialize bs s"
proof -
  have len: "length (utf8 (content s)) \<le> 128" and bs: "bs = of_nat (length (utf8 (content s))) # utf8 (content s)"
    using assms by (auto simp: LengthPrefixedString_serialize_def split: if_splits)
  have u: "unat (of_nat (length (utf8 (content s))) :: byte) = length (utf8 (content s))"
    using len by (simp add: unat_of_nat)
  show ?thesis
    unfolding decodes_def
  proof (intro allI)
    fix pre rest
    show "LengthPrefixedString_deserialize (readerAt pre (bs @ rest)) =
          Inr (s, readerAt (pre @ bs) rest)"
      using read_readerAt [of "utf8 (content s)" "length (utf8 (content s))" "pre @ [of_nat (length (utf8 (content s)))]" rest]
      by (simp add: bs LengthPrefixedString_deserialize_def readHexByte_readerAt bindE_def u fromUtf8_utf8)
  qed
qed

lemma decodesD:
  "decodes de bs x \<Longrightarrow> de (readerAt pre (bs @ rest)) = Inr (x, readerAt (pre @ bs) rest)"
  by (simp add: decodes_def)

lemma PostConditionType_distinct:
  "PostConditionType_STX \<noteq> PostConditionType_Fungible"
  "PostConditionType_STX \<noteq> PostConditionType_NonFungible"
  "PostConditionType_Fungible \<noteq> PostConditionType_NonFungible"
  "PostConditionType_Fungible \<noteq> PostConditionType_STX"
  "PostConditionType_NonFungible \<noteq> PostConditionType_STX"
  "PostConditionType_NonFungible \<noteq> PostConditionType_Fungible"
  by (simp_all add: PostConditionType_STX_def PostConditionType_Fungible_def
      PostConditionType_NonFungible_def)

lemmas ser_simps = PostCondition_serialize_def bindE_def required_def appendHexString_def
  push_def concatBuffer_def toArrayLike_def

lemma roundtripsI: "ser x = Inr bs \<Longrightarrow> decodes de bs x \<Longrightarrow> roundtrips ser de x"
  unfolding roundtrips_def readsBack_def by blast

lemma roundtripsE:
  assumes "roundtrips ser de x"
  obtains bs where "ser x = Inr bs" "decodes de bs x"
  using assms unfolding roundtrips_def readsBack_def by blast

lemma readsBackI: "ser x = Inr bs \<Longrightarrow> decodes de bs y \<Longrightarrow> readsBack ser de x y"
  unfolding readsBack_def by blast

lemma PostCondition_variantFields_id:
  "PostCondition_noForeignField pc \<Longrightarrow> PostCondition_variantFields pc = pc"
  by (cases pc)
     (auto simp: PostCondition_noForeignField_def PostCondition_variantFields_def
       split: option.splits)

lemma PostCondition_readsBack:
  assumes req: "PostCondition_requiredPresent T pc"
  shows "readsBack (PostCondition_serialize T) (PostCondition_read T) pc
           (PostCondition_variantFields pc)"
proof -
  from req obtain pct p cc where
    t: "postConditionType pc = Some pct" and p: "principal pc = Some p"
    and rp: "roundtrips (Principal_serialize T) (Principal_deserialize T) p"
    and c: "conditionCode pc = Some cc"
    and ai: "pct = PostConditionType_Fungible \<or> pct = PostConditionType_NonFungible \<Longrightarrow>
             \<exists>ai. assetInfo pc = Some ai \<and>
                  roundtrips (AssetInfo_serialize T) (AssetInfo_deserialize T) ai"
    and an: "pct = PostConditionType_NonFungible \<Longrightarrow>
             \<exists>n. assetName pc = Some n \<and> length (utf8 (content n)) \<le> 128"
    and am: "pct = PostConditionType_STX \<or> pct = PostConditionType_Fungible \<Longrightarrow>
             \<exists>a. amount pc = Some a \<and> a < 2 ^ 64"
    unfolding PostCondition_requiredPresent_def by blast
  from rp obtain pb where pb: "Principal_serialize T p = Inr pb"
    and dp: "decodes (Principal_deserialize T) pb p"
    by (rule roundtripsE)
  note dpD = decodesD [OF dp]
  consider (stx) "pct = PostConditionType_STX" | (fungible) "pct = PostConditionType_Fungible"
    | (nft) "pct = PostConditionType_NonFungible"
    | (other) "pct \<noteq> PostConditionType_STX" "pct \<noteq> PostConditionType_Fungible"
        "pct \<noteq> PostConditionType_NonFungible"
    by blast
  then show ?thesis
  proof cases
    case stx
    from am stx obtain a where a: "amount pc = Some a" "a < 2 ^ 64" by blast
    have a': "a < 256 ^ 8" using a(2) by simp
    have vf: "PostCondition_variantFields pc =
        \<lparr>postConditionType = Some pct, principal = Some p, conditionCode = Some cc,
         assetInfo = None, assetName = None, amount = Some a\<rparr>"
      using t p c a(1) stx
      by (cases pc) (simp add: PostCondition_variantFields_def PostConditionType_distinct)
    have s: "PostCondition_serialize T pc = Inr (pct # pb @ cc # bigEndian 8 a)"
      using a' by (simp add: ser_simps t p c a pb stx PostConditionType_distinct
          del: bigEndian.simps)
    have "decodes (PostCondition_read T) (pct # pb @ cc # bigEndian 8 a)
            (PostCondition_variantFields pc)"
      unfolding decodes_def
    proof (intro allI)
      fix pre rest
      have r8: "read (readerAt (pre @ pct # pb @ [cc]) (bigEndian 8 a @ rest)) 8 =
                 Inr (bigEndian 8 a, readerAt ((pre @ pct # pb @ [cc]) @ bigEndian 8 a) rest)"
        by (rule read_readerAt) (rule length_bigEndian)
      show "PostCondition_read T (readerAt pre ((pct # pb @ cc # bigEndian 8 a) @ rest)) =
            Inr (PostCondition_variantFields pc,
                 readerAt (pre @ pct # pb @ cc # bigEndian 8 a) rest)"
        using dpD [of "pre @ [pct]" "cc # bigEndian 8 a @ rest"] r8
        by (simp add: PostCondition_read_def PostCondition_deserialize_def readHexByte_readerAt
            bindE_def stx PostConditionType_distinct fromHex16_bigEndian [OF a']
            PostCondition_empty_def PostCondition_new_def vf del: bigEndian.simps)
    qed
    with s show ?thesis by (rule readsBackI)
  next
    case fungible
    from am fungible obtain a where a: "amount pc = Some a" "a < 2 ^ 64" by blast
    have a': "a < 256 ^ 8" using a(2) by simp
    from ai fungible obtain i where i: "assetInfo pc = Some i"
      and ri: "roundtrips (AssetInfo_serialize T) (AssetInfo_deserialize T) i" by blast
    from ri obtain ib where ib: "AssetInfo_serialize T i = Inr ib"
      and di: "decodes (AssetInfo_deserialize T) ib i"
      by (rule roundtripsE)
    have vf: "PostCondition_variantFields pc =
        \<lparr>postConditionType = Some pct, principal = Some p, conditionCode = Some cc,
         assetInfo = Some i, assetName = None, amount = Some a\<rparr>"
      using t p c a(1) i fungible
      by (cases pc) (simp add: PostCondition_variantFields_def PostConditionType_distinct)
    have s: "PostCondition_serialize T pc = Inr (pct # pb @ ib @ cc # bigEndian 8 a)"
      using a' by (simp add: ser_simps t p c a i pb ib fungible PostConditionType_distinct
          del: bigEndian.simps)
    have "decodes (PostCondition_read T) (pct # pb @ ib @ cc # bigEndian 8 a)
            (PostCondition_variantFields pc)"
      unfolding decodes_def
    proof (intro allI)
      fix pre rest
      have r8: "read (readerAt (pre @ pct # pb @ ib @ [cc]) (bigEndian 8 a @ rest)) 8 =
                 Inr (bigEndian 8 a, readerAt ((pre @ pct # pb @ ib @ [cc]) @ bigEndian 8 a) rest)"
        by (rule read_readerAt) (rule length_bigEndian)
      show "PostCondition_read T (readerAt pre ((pct # pb @ ib @ cc # bigEndian 8 a) @ rest)) =
            Inr (PostCondition_variantFields pc,
                 readerAt (pre @ pct # pb @ ib @ cc # bigEndian 8 a) rest)"
        using dpD [of "pre @ [pct]" "ib @ cc # bigEndian 8 a @ rest"]
          decodesD [OF di, of "pre @ pct # pb" "cc # bigEndian 8 a @ rest"] r8
        by (simp add: PostCondition_read_def PostCondition_deserialize_def readHexByte_readerAt
            bindE_def fungible PostConditionType_distinct fromHex16_bigEndian [OF a']
            PostCondition_empty_def PostCondition_new_def vf del: bigEndian.simps)
    qed
    with s show ?thesis by (rule readsBackI)
  next
    case nft
    from ai nft obtain i where i: "assetInfo pc = Some i"
      and ri: "roundtrips (AssetInfo_serialize T) (AssetInfo_deserialize T) i" by blast
    from ri obtain ib where ib: "AssetInfo_serialize T i = Inr ib"
      and di: "decodes (AssetInfo_deserialize T) ib i"
      by (rule roundtripsE)
    from an nft obtain n where n: "assetName pc = Some n"
      and ln: "length (utf8 (content n)) \<le> 128" by blast
    obtain nb where nb: "LengthPrefixedString_serialize n = Inr nb"
      using ln by (simp add: LengthPrefixedString_serialize_def)
    note dn = LengthPrefixedString_decodes [OF nb]
    have vf: "PostCondition_variantFields pc =
        \<lparr>postConditionType = Some pct, principal = Some p, conditionCode = Some cc,
         assetInfo = Some i, assetName = Some n, amount = None\<rparr>"
      using t p c n i nft
      by (cases pc) (simp add: PostCondition_variantFields_def PostConditionType_distinct)
    have s: "PostCondition_serialize T pc = Inr (pct # pb @ ib @ nb @ [cc])"
      by (simp add: ser_simps t p c n i pb ib nb nft PostConditionType_distinct)
    have "decodes (PostCondition_read T) (pct # pb @ ib @ nb @ [cc])
            (PostCondition_variantFields pc)"
      unfolding decodes_def
    proof (intro allI)
      fix pre rest
      show "PostCondition_read T (readerAt pre ((pct # pb @ ib @ nb @ [cc]) @ rest)) =
            Inr (PostCondition_variantFields pc, readerAt (pre @ pct # pb @ ib @ nb @ [cc]) rest)"
        using dpD [of "pre @ [pct]" "ib @ nb @ cc # rest"]
          decodesD [OF di, of "pre @ pct # pb" "nb @ cc # rest"]
          decodesD [OF dn, of "pre @ pct # pb @ ib" "cc # rest"]
        by (simp add: PostCondition_read_def PostCondition_deserialize_def readHexByte_readerAt
            bindE_def nft PostConditionType_distinct
            PostCondition_empty_def PostCondition_new_def vf)
    qed
    with s show ?thesis by (rule readsBackI)
  next
    case other
    have vf: "PostCondition_variantFields pc =
        \<lparr>postConditionType = Some pct, principal = Some p, conditionCode = Some cc,
         assetInfo = None, assetName = None, amount = None\<rparr>"
      using t p c other
      by (cases pc) (simp add: PostCondition_variantFields_def)
    have s: "PostCondition_serialize T pc = Inr (pct # pb @ [cc])"
      by (simp add: ser_simps t p c pb other)
    have "decodes (PostCondition_read T) (pct # pb @ [cc]) (PostCondition_variantFields pc)"
      unfolding decodes_def
    proof (intro allI)
      fix pre rest
      show "PostCondition_read T (readerAt pre ((pct # pb @ [cc]) @ rest)) =
            Inr (PostCondition_variantFields pc, readerAt (pre @ pct # pb @ [cc]) rest)"
        using dpD [of "pre @ [pct]" "cc # rest"]
        by (simp add: PostCondition_read_def PostCondition_deserialize_def readHexByte_readerAt
            bindE_def other PostCondition_empty_def PostCondition_new_def vf)
    qed
    with s show ?thesis by (rule readsBackI)
  qed
qed

lemma PostCondition_roundtrips:
  assumes "PostCondition_requiredPresent T pc" and "PostCondition_noForeignField pc"
  shows "roundtrips (PostCondition_serialize T) (PostCondition_read T) pc"
  using PostCondition_readsBack [OF assms(1)] PostCondition_variantFields_id [OF assms(2)]
  by (simp add: roundtrips_def)

lemma elements_readBack:
  assumes "\<forall>x \<in> set xs. readsBack ser de x (f x)"
  shows "\<exists>bs. serializeElements ser xs = Inr bs \<and>
           (\<forall>pre rest. deserializeElements de (length xs) (readerAt pre (concat bs @ rest)) =
                        Inr (map f xs, readerAt (pre @ concat bs) rest))"
  using assms
proof (induction xs)
  case Nil
  then show ?case by simp
next
  case (Cons x xs)
  from Cons.prems obtain b where b: "ser x = Inr b" and d: "decodes de b (f x)"
    unfolding readsBack_def by auto
  from Cons obtain bs where bs: "serializeElements ser xs = Inr bs"
    and ds: "\<And>pre rest. deserializeElements de (length xs) (readerAt pre (concat bs @ rest)) =
                        Inr (map f xs, readerAt (pre @ concat bs) rest)"
    by auto
  have "serializeElements ser (x # xs) = Inr (b # bs)"
    by (simp add: b bs bindE_def)
  moreover have "deserializeElements de (length (x # xs)) (readerAt pre (concat (b # bs) @ rest)) =
                        Inr (map f (x # xs), readerAt (pre @ concat (b # bs)) rest)" for pre rest
    using decodesD [OF d, of pre "concat bs @ rest"] ds [of "pre @ b" rest]
    by (simp add: bindE_def)
  ultimately show ?case by blast
qed

lemma LengthPrefixedList_readsBack:
  assumes "\<forall>x \<in> set xs. readsBack ser de x (f x)" and "length xs < 2 ^ 32"
  shows "readsBack (LengthPrefixedList_serialize ser) (LengthPrefixedList_deserialize de) xs
           (map f xs)"
proof -
  from elements_readBack [OF assms(1)] obtain bs where bs: "serializeElements ser xs = Inr bs"
    and ds: "\<And>pre rest. deserializeElements de (length xs) (readerAt pre (concat bs @ rest)) =
                        Inr (map f xs, readerAt (pre @ concat bs) rest)"
    by blast
  have l: "length xs < 256 ^ 4" using assms(2) by simp
  have s: "LengthPrefixedList_serialize ser xs = Inr (bigEndian 4 (length xs) @ concat bs)"
    using assms(2) by (simp add: LengthPrefixedList_serialize_def bs bindE_def concatBuffer_def
        del: bigEndian.simps)
  have "decodes (LengthPrefixedList_deserialize de) (bigEndian 4 (length xs) @ concat bs)
          (map f xs)"
    unfolding decodes_def
  proof (intro allI)
    fix pre rest
    have r4: "read (readerAt pre (bigEndian 4 (length xs) @ concat bs @ rest)) 4 =
              Inr (bigEndian 4 (length xs), readerAt (pre @ bigEndian 4 (length xs)) (concat bs @ rest))"
      by (rule read_readerAt) (rule length_bigEndian)
    show "LengthPrefixedList_deserialize de
            (readerAt pre ((bigEndian 4 (length xs) @ concat bs) @ rest)) =
          Inr (map f xs, readerAt (pre @ bigEndian 4 (length xs) @ concat bs) rest)"
      using r4 ds [of "pre @ bigEndian 4 (length xs)" rest]
      by (simp add: LengthPrefixedList_deserialize_def bindE_def fromHex16_bigEndian [OF l]
          del: bigEndian.simps)
  qed
  with s show ?thesis by (rule readsBackI)
qed

lemma TransactionVersion_distinct:
  "TransactionVersion_Testnet \<noteq> TransactionVersion_Mainnet"
  by (simp add: TransactionVersion_Mainnet_def TransactionVersion_Testnet_def)

lemma StacksTransaction_decodes:
  assumes cid: "length cid = 4"
    and da: "decodes (Authorization_deserialize C) ab a"
    and dl: "decodes (LengthPrefixedList_deserialize (PostCondition_read C)) lb pcs"
    and dp: "decodes (Payload_deserialize C) pb pl"
  shows "StacksTransaction_deserialize C this
           (readerAt pre ((v # cid @ ab @ am # pcm # lb @ pb) @ rest)) =
         Inr (this\<lparr>version := Some (if v = TransactionVersion_Mainnet
                                        then TransactionVersion_Mainnet
                                        else TransactionVersion_Testnet),
                   chainId := Some cid, auth := Some a, anchorMode := Some am,
                   postConditionMode := pcm, postConditions := pcs, payload := Some pl\<rparr>,
              readerAt (pre @ v # cid @ ab @ am # pcm # lb @ pb) rest)"
  using read_readerAt [OF cid, of "pre @ [v]" "ab @ am # pcm # lb @ pb @ rest"]
    decodesD [OF da, of "pre @ v # cid" "am # pcm # lb @ pb @ rest"]
    decodesD [OF dl, of "pre @ v # cid @ ab @ [am, pcm]" "pb @ rest"]
    decodesD [OF dp, of "pre @ v # cid @ ab @ am # pcm # lb" rest]
  by (simp add: StacksTransaction_deserialize_def bindE_def readHexByte_readerAt)

lemma StacksTransaction_wellFormed_serialize:
  assumes wf: "StacksTransaction_wellFormed C tx"
  obtains v cid a am pl ab lb pb where
    "version tx = Some v"
    "v = TransactionVersion_Mainnet \<or> v = TransactionVersion_Testnet"
    "chainId tx = Some cid" "length cid = 4"
    "auth tx = Some a" "anchorMode tx = Some am" "payload tx = Some pl"
    "decodes (Authorization_deserialize C) ab a"
    "decodes (LengthPrefixedList_deserialize (PostCondition_read C)) lb
       (map PostCondition_variantFields (postConditions tx))"
    "decodes (Payload_deserialize C) pb pl"
    "Authorization_serialize C a = Inr ab"
    "LengthPrefixedList_serialize (PostCondition_serialize C) (postConditions tx) = Inr lb"
    "Payload_serialize C pl = Inr pb"
    "StacksTransaction_serialize C tx =
       Inr (v # cid @ ab @ am # postConditionMode tx # lb @ pb)"
proof -
  from wf obtain v cid a am pl where
    v: "version tx = Some v" "v = TransactionVersion_Mainnet \<or> v = TransactionVersion_Testnet"
    and cid: "chainId tx = Some cid" "length cid = 4"
    and a: "auth tx = Some a"
    and ra: "roundtrips (Authorization_serialize C) (Authorization_deserialize C) a"
    and am: "anchorMode tx = Some am"
    and pl: "payload tx = Some pl"
    and rp: "roundtrips (Payload_serialize C) (Payload_deserialize C) pl"
    and len: "length (postConditions tx) < 2 ^ 32"
    and pcs: "\<forall>pc \<in> set (postConditions tx). PostCondition_requiredPresent C pc"
    unfolding StacksTransaction_wellFormed_def by auto
  from ra obtain ab where ab: "Authorization_serialize C a = Inr ab"
    and da: "decodes (Authorization_deserialize C) ab a"
    by (rule roundtripsE)
  from rp obtain pb where pb: "Payload_serialize C pl = Inr pb"
    and dp: "decodes (Payload_deserialize C) pb pl"
    by (rule roundtripsE)
  have "\<forall>pc \<in> set (postConditions tx).
          readsBack (PostCondition_serialize C) (PostCondition_read C) pc
            (PostCondition_variantFields pc)"
    using pcs PostCondition_readsBack by blast
  from LengthPrefixedList_readsBack [OF this len] obtain lb where
    lb: "LengthPrefixedList_serialize (PostCondition_serialize C) (postConditions tx) = Inr lb"
    and dl: "decodes (LengthPrefixedList_deserialize (PostCondition_read C)) lb
               (map PostCondition_variantFields (postConditions tx))"
    unfolding readsBack_def by blast
  have s: "StacksTransaction_serialize C tx =
           Inr (v # cid @ ab @ am # postConditionMode tx # lb @ pb)"
    by (simp add: StacksTransaction_serialize_def bindE_def required_def appendHexString_def
        push_def concatBuffer_def v cid a am pl ab pb lb)
  show thesis
    by (rule that [OF v cid a am pl da dl dp ab lb pb s])
qed

lemma StacksTransaction_new_assigned:
  "StacksTransaction_new None None None
     \<lparr>version := version tx, chainId := chainId tx, auth := auth tx,
      anchorMode := anchorMode tx, postConditionMode := postConditionMode tx,
      postConditions := pcs, payload := payload tx\<rparr> = tx\<lparr>postConditions := pcs\<rparr>"
  by (cases tx) (simp add: StacksTransaction_new_def)

lemma StacksTransaction_readsBack:
  assumes wf: "StacksTransaction_wellFormed C tx"
  shows "readsBack (StacksTransaction_serialize C) (StacksTransaction_read C) tx
           (StacksTransaction_variantFields tx)"
proof -
  from wf obtain v cid a am pl ab lb pb where
    v: "version tx = Some v" "v = TransactionVersion_Mainnet \<or> v = TransactionVersion_Testnet"
    and cid: "chainId tx = Some cid" "length cid = 4"
    and a: "auth tx = Some a" and am: "anchorMode tx = Some am" and pl: "payload tx = Some pl"
    and da: "decodes (Authorization_deserialize C) ab a"
    and dl: "decodes (LengthPrefixedList_deserialize (PostCondition_read C)) lb
               (map PostCondition_variantFields (postConditions tx))"
    and dp: "decodes (Payload_deserialize C) pb pl"
    and s: "StacksTransaction_serialize C tx =
              Inr (v # cid @ ab @ am # postConditionMode tx # lb @ pb)"
    by (rule StacksTransaction_wellFormed_serialize)
  have vv: "(if v = TransactionVersion_Mainnet then TransactionVersion_Mainnet
             else TransactionVersion_Testnet) = v"
    using v(2) by (auto simp: TransactionVersion_distinct)
  have "decodes (StacksTransaction_read C)
          (v # cid @ ab @ am # postConditionMode tx # lb @ pb)
          (StacksTransaction_variantFields tx)"
    unfolding decodes_def StacksTransaction_read_def StacksTransaction_variantFields_def
    using StacksTransaction_decodes [OF cid(2) da dl dp] vv
      StacksTransaction_new_assigned [of tx "map PostCondition_variantFields (postConditions tx)"]
      v(1) cid(1) a am pl
    by simp
  with s show ?thesis by (rule readsBackI)
qed

lemma StacksTransaction_variantFields_id:
  "\<forall>pc \<in> set (postConditions tx). PostCondition_noForeignField pc \<Longrightarrow>
   StacksTransaction_variantFields tx = tx"
  by (simp add: StacksTransaction_variantFields_def PostCondition_variantFields_id map_idI)

section \<open>The instance round-trips\<close>

lemma bigEndian_numeral:
  "bigEndian (numeral k) a = bigEndian (pred_numeral k) (a div 256) @ [of_nat (a mod 256)]"
proof -
  have "bigEndian (Suc (pred_numeral k)) a =
        bigEndian (pred_numeral k) (a div 256) @ [of_nat (a mod 256)]"
    by (rule bigEndian.simps)
  then show ?thesis by (simp only: numeral_eq_Suc [of k])
qed

lemma instance_types [simp]:
  "Principal_serialize instance_collaborators = LengthPrefixedString_serialize"
  "Principal_deserialize instance_collaborators = LengthPrefixedString_deserialize"
  "AssetInfo_serialize instance_collaborators = LengthPrefixedString_serialize"
  "AssetInfo_deserialize instance_collaborators = LengthPrefixedString_deserialize"
  "Authorization_serialize instance_collaborators = SingleSigAuthorization_serialize"
  "Authorization_deserialize instance_collaborators = SingleSigAuthorization_deserialize"
  "Payload_serialize instance_collaborators = CoinbasePayload_serialize"
  "Payload_deserialize instance_collaborators = CoinbasePayload_deserialize"
  "intoInitialSighashAuth instance_collaborators = SingleSigAuthorization_clear"
  "txidFromData instance_collaborators = checksum"
  by (simp_all add: instance_collaborators_def)

lemma LengthPrefixedString_roundtrips:
  "length (utf8 (content s)) \<le> 128 \<Longrightarrow>
   roundtrips LengthPrefixedString_serialize LengthPrefixedString_deserialize s"
  using LengthPrefixedString_decodes [of s]
  by (simp add: roundtrips_def readsBack_def LengthPrefixedString_serialize_def)

lemma CoinbasePayload_roundtrips:
  assumes t: "payloadType p = Some t" and l: "length (coinbaseBuffer p) = 32"
  shows "roundtrips CoinbasePayload_serialize CoinbasePayload_deserialize p"
proof -
  have s: "CoinbasePayload_serialize p = Inr (t # coinbaseBuffer p)"
    by (simp add: CoinbasePayload_serialize_def bindE_def required_def t l)
  have p: "p = \<lparr>payloadType = Some t, coinbaseBuffer = coinbaseBuffer p\<rparr>"
    using t by (cases p) simp
  have "decodes CoinbasePayload_deserialize (t # coinbaseBuffer p) p"
    unfolding decodes_def
  proof (intro allI)
    fix pre rest
    show "CoinbasePayload_deserialize (readerAt pre ((t # coinbaseBuffer p) @ rest)) =
          Inr (p, readerAt (pre @ t # coinbaseBuffer p) rest)"
      using read_readerAt [OF l, of "pre @ [t]" rest] p
      by (simp add: CoinbasePayload_deserialize_def bindE_def readHexByte_readerAt)
  qed
  with s show ?thesis by (rule roundtripsI)
qed

lemma SingleSigAuthorization_roundtrips:
  assumes t: "authType a = Some t" and c: "spendingCondition a = Some c"
    and n: "nonce c = Some n" "n < 2 ^ 64" and f: "feeRate c = Some f" "f < 2 ^ 64"
    and l: "length (signature c) = 65"
  shows "roundtrips SingleSigAuthorization_serialize SingleSigAuthorization_deserialize a"
proof -
  have n': "n < 256 ^ 8" and f': "f < 256 ^ 8" using n(2) f(2) by simp_all
  have s: "SingleSigAuthorization_serialize a =
           Inr (t # bigEndian 8 n @ bigEndian 8 f @ signature c)"
    using n' f' by (simp add: SingleSigAuthorization_serialize_def bindE_def required_def
        toArrayLike_def t c n(1) f(1) l del: bigEndian.simps)
  have cc: "c = \<lparr>feeRate = Some f, nonce = Some n, signature = signature c\<rparr>"
    using n(1) f(1) by (cases c) simp
  have a: "a = \<lparr>authType = Some t, spendingCondition = Some c\<rparr>"
    using t c by (cases a) simp
  have "decodes SingleSigAuthorization_deserialize
          (t # bigEndian 8 n @ bigEndian 8 f @ signature c) a"
    unfolding decodes_def
  proof (intro allI)
    fix pre rest
    have r1: "read (readerAt (pre @ [t]) (bigEndian 8 n @ bigEndian 8 f @ signature c @ rest)) 8 =
              Inr (bigEndian 8 n, readerAt ((pre @ [t]) @ bigEndian 8 n)
                    (bigEndian 8 f @ signature c @ rest))"
      by (rule read_readerAt) (rule length_bigEndian)
    have r2: "read (readerAt (pre @ t # bigEndian 8 n) (bigEndian 8 f @ signature c @ rest)) 8 =
              Inr (bigEndian 8 f, readerAt ((pre @ t # bigEndian 8 n) @ bigEndian 8 f)
                    (signature c @ rest))"
      by (rule read_readerAt) (rule length_bigEndian)
    have r3: "read (readerAt (pre @ t # bigEndian 8 n @ bigEndian 8 f) (signature c @ rest)) 65 =
              Inr (signature c, readerAt ((pre @ t # bigEndian 8 n @ bigEndian 8 f) @ signature c)
                    rest)"
      by (rule read_readerAt) (rule l)
    have e: "\<lparr>authType = Some t,
              spendingCondition =
                Some \<lparr>feeRate = Some f, nonce = Some n, signature = signature c\<rparr>\<rparr> = a"
      using a cc by simp
    show "SingleSigAuthorization_deserialize
            (readerAt pre ((t # bigEndian 8 n @ bigEndian 8 f @ signature c) @ rest)) =
          Inr (a, readerAt (pre @ t # bigEndian 8 n @ bigEndian 8 f @ signature c) rest)"
      using r1 r2 r3 e
      by (simp add: SingleSigAuthorization_deserialize_def bindE_def readHexByte_readerAt
          fromHex16_bigEndian [OF n'] fromHex16_bigEndian [OF f'] del: bigEndian.simps)
  qed
  with s show ?thesis by (rule roundtripsI)
qed

lemma instance_principal_roundtrips:
  "roundtrips LengthPrefixedString_serialize LengthPrefixedString_deserialize instance_principal"
  "roundtrips LengthPrefixedString_serialize LengthPrefixedString_deserialize instance_assetInfo"
  by (rule LengthPrefixedString_roundtrips, simp add: instance_principal_def instance_assetInfo_def utf8_def)+

lemma instance_requiredPresent:
  "PostCondition_requiredPresent instance_collaborators instance_stx"
  "PostCondition_requiredPresent instance_collaborators instance_fungible"
  "PostCondition_requiredPresent instance_collaborators instance_nonFungible"
  "PostCondition_requiredPresent instance_collaborators instance_foreign"
  by (simp_all add: PostCondition_requiredPresent_def instance_stx_def instance_fungible_def
      instance_nonFungible_def instance_foreign_def STXPostCondition_def
      FungiblePostCondition_def NonFungiblePostCondition_def PostCondition_new_def
      PostConditionType_distinct instance_principal_roundtrips utf8_def)

lemma instance_noForeignField:
  "PostCondition_noForeignField instance_stx"
  "PostCondition_noForeignField instance_fungible"
  "PostCondition_noForeignField instance_nonFungible"
  by (simp_all add: PostCondition_noForeignField_def instance_stx_def instance_fungible_def
      instance_nonFungible_def STXPostCondition_def
      FungiblePostCondition_def NonFungiblePostCondition_def PostCondition_new_def
      PostConditionType_distinct)

lemma StacksTransaction_new_payload:
  "StacksTransaction_new v a (Some p) =
     \<lparr>version = v, chainId = Some DEFAULT_CHAIN_ID, auth = a,
      anchorMode = Some (if payloadType p = Some PayloadType_Coinbase \<or>
                            payloadType p = Some PayloadType_PoisonMicroblock
                         then AnchorMode_OnChainOnly else AnchorMode_Any),
      payload = Some p, postConditionMode = PostConditionMode_Deny, postConditions = []\<rparr>"
  by (simp add: StacksTransaction_new_def Let_def)

lemma instance_transaction_wellFormed:
  "StacksTransaction_wellFormed instance_collaborators instance_transaction"
proof -
  have a: "roundtrips SingleSigAuthorization_serialize SingleSigAuthorization_deserialize
             instance_authorization"
    by (rule SingleSigAuthorization_roundtrips
          [where t = AuthType_Standard and n = 0 and f = 0
             and c = instance_condition])
       (simp_all add: instance_authorization_def instance_condition_def)
  have p: "roundtrips CoinbasePayload_serialize CoinbasePayload_deserialize instance_payload"
    by (rule CoinbasePayload_roundtrips [where t = PayloadType_Coinbase])
       (simp_all add: instance_payload_def)
  show ?thesis
    using a p instance_requiredPresent(1)
    by (simp add: StacksTransaction_wellFormed_def instance_transaction_def addPostCondition_def
        StacksTransaction_new_payload DEFAULT_CHAIN_ID_def)
qed





lemma instance_serialize:
  "PostCondition_serialize instance_collaborators instance_stx =
     Inr [0x00, 5, 0x61, 0x6C, 0x69, 0x63, 0x65, 0x03, 0, 0, 0, 0, 0, 0x0F, 0x42, 0x40]"
  "PostCondition_serialize instance_collaborators instance_foreign =
     Inr [0x00, 5, 0x61, 0x6C, 0x69, 0x63, 0x65, 0x03, 0, 0, 0, 0, 0, 0x0F, 0x42, 0x40]"
  "PostCondition_serialize instance_collaborators instance_fungible =
     Inr [0x01, 5, 0x61, 0x6C, 0x69, 0x63, 0x65, 5, 0x74, 0x6F, 0x6B, 0x65, 0x6E, 0x03,
          0, 0, 0, 0, 0, 0x0F, 0x42, 0x40]"
  "PostCondition_serialize instance_collaborators instance_nonFungible =
     Inr [0x02, 5, 0x61, 0x6C, 0x69, 0x63, 0x65, 5, 0x74, 0x6F, 0x6B, 0x65, 0x6E,
          3, 0x6E, 0x66, 0x74, 0x10]"
  by (simp_all add: ser_simps instance_stx_def instance_foreign_def instance_fungible_def
      instance_nonFungible_def STXPostCondition_def FungiblePostCondition_def
      NonFungiblePostCondition_def PostCondition_new_def
      LengthPrefixedString_serialize_def instance_principal_def instance_assetInfo_def utf8_def
      bigEndian_numeral PostConditionType_STX_def PostConditionType_Fungible_def
      PostConditionType_NonFungible_def)

section \<open>C1: round trip of post-conditions and transactions\<close>

text \<open>
  C1 as stated (required fields present and within bounds) fails: an STX post-condition
  built with the base constructor and carrying an asset info has all the fields its
  variant requires, but \<open>serialize\<close> writes no asset info for STX and \<open>deserialize\<close>
  assigns none, so the value read back has no asset info.
\<close>

theorem C1_counterexample:
  "PostCondition_requiredPresent instance_collaborators instance_foreign \<and>
   PostCondition_serialize instance_collaborators instance_foreign =
     Inr [0x00, 5, 0x61, 0x6C, 0x69, 0x63, 0x65, 0x03, 0, 0, 0, 0, 0, 0x0F, 0x42, 0x40] \<and>
   PostCondition_read instance_collaborators
     (readerAt [] [0x00, 5, 0x61, 0x6C, 0x69, 0x63, 0x65, 0x03, 0, 0, 0, 0, 0, 0x0F, 0x42, 0x40]) =
     Inr (instance_stx,
          readerAt [0x00, 5, 0x61, 0x6C, 0x69, 0x63, 0x65, 0x03, 0, 0, 0, 0, 0, 0x0F, 0x42, 0x40]
            []) \<and>
   assetInfo instance_foreign = Some instance_assetInfo \<and>
   assetInfo instance_stx = None \<and>
   \<not> roundtrips (PostCondition_serialize instance_collaborators)
        (PostCondition_read instance_collaborators) instance_foreign"
proof -
  let ?bs = "[0x00, 5, 0x61, 0x6C, 0x69, 0x63, 0x65, 0x03, 0, 0, 0, 0, 0, 0x0F, 0x42, 0x40]
             :: Buffer"
  have "roundtrips (PostCondition_serialize instance_collaborators)
          (PostCondition_read instance_collaborators) instance_stx"
    by (rule PostCondition_roundtrips [OF instance_requiredPresent(1) instance_noForeignField(1)])
  then have "decodes (PostCondition_read instance_collaborators) ?bs instance_stx"
    using instance_serialize(1) by (auto elim: roundtripsE)
  from decodesD [OF this, of "[]" "[]"]
  have rd: "PostCondition_read instance_collaborators (readerAt [] ?bs) =
            Inr (instance_stx, readerAt ?bs [])"
    by simp
  have ai: "assetInfo instance_foreign = Some instance_assetInfo" "assetInfo instance_stx = None"
    by (simp_all add: instance_foreign_def instance_stx_def STXPostCondition_def
        PostCondition_new_def)
  have "\<not> roundtrips (PostCondition_serialize instance_collaborators)
        (PostCondition_read instance_collaborators) instance_foreign"
  proof
    assume "roundtrips (PostCondition_serialize instance_collaborators)
        (PostCondition_read instance_collaborators) instance_foreign"
    then have "decodes (PostCondition_read instance_collaborators) ?bs instance_foreign"
      using instance_serialize(2) by (auto elim: roundtripsE)
    from decodesD [OF this, of "[]" "[]"] rd have "instance_stx = instance_foreign"
      by simp
    with ai show False by simp
  qed
  with instance_requiredPresent(4) instance_serialize(2) rd ai show ?thesis
    by (simp only: simp_thms)
qed

text \<open>
  C1, as amended. A post-condition whose required fields are present and within bounds
  is read back, from the bytes \<open>serialize\<close> produced and wherever they stand in the
  buffer, with the fields of its variant equal and the other fields absent, and the
  cursor ends right after those bytes; so it is read back as itself when it has no field
  outside its variant. A well-formed transaction is read back in the same way, with each
  of its post-conditions so restricted.
\<close>

theorem C1_roundtrip:
  "(PostCondition_requiredPresent T pc \<longrightarrow>
      readsBack (PostCondition_serialize T) (PostCondition_read T) pc
        (PostCondition_variantFields pc)) \<and>
   (PostCondition_requiredPresent T pc \<and> PostCondition_noForeignField pc \<longrightarrow>
      roundtrips (PostCondition_serialize T) (PostCondition_read T) pc) \<and>
   (StacksTransaction_wellFormed C tx \<longrightarrow>
      readsBack (StacksTransaction_serialize C) (StacksTransaction_read C) tx
        (StacksTransaction_variantFields tx)) \<and>
   (StacksTransaction_wellFormed C tx \<and>
    (\<forall>pc \<in> set (postConditions tx). PostCondition_noForeignField pc) \<longrightarrow>
      roundtrips (StacksTransaction_serialize C) (StacksTransaction_read C) tx)"
  using PostCondition_readsBack [of T pc] PostCondition_roundtrips [of T pc]
    StacksTransaction_readsBack [of C tx] StacksTransaction_variantFields_id [of tx]
  by (auto simp: roundtrips_def)

theorem C1_roundtrip_witness:
  "readsBack (PostCondition_serialize instance_collaborators)
     (PostCondition_read instance_collaborators) instance_foreign instance_stx \<and>
   readsBack (PostCondition_serialize instance_collaborators)
     (PostCondition_read instance_collaborators) instance_nonFungible
     (PostCondition_variantFields instance_nonFungible) \<and>
   roundtrips (PostCondition_serialize instance_collaborators)
     (PostCondition_read instance_collaborators) instance_nonFungible \<and>
   readsBack (StacksTransaction_serialize instance_collaborators)
     (StacksTransaction_read instance_collaborators) instance_transaction
     (StacksTransaction_variantFields instance_transaction) \<and>
   roundtrips (StacksTransaction_serialize instance_collaborators)
     (StacksTransaction_read instance_collaborators) instance_transaction"
proof -
  have v: "PostCondition_variantFields instance_foreign = instance_stx"
    by (simp add: PostCondition_variantFields_def instance_foreign_def instance_stx_def
        STXPostCondition_def PostCondition_new_def PostConditionType_distinct)
  show ?thesis
    using C1_roundtrip [of instance_collaborators instance_nonFungible
        instance_collaborators instance_transaction]
      C1_roundtrip [of instance_collaborators instance_foreign, THEN conjunct1]
      instance_requiredPresent(3,4) instance_noForeignField(1,3)
      instance_transaction_wellFormed v
    by (simp add: instance_transaction_def addPostCondition_def StacksTransaction_new_payload)
qed

section \<open>C2: the amount of a post-condition\<close>





lemma absent_Some [simp]: "absent name (Some x) = []"
  and absent_None [simp]: "absent name None = [name]"
  by (simp_all add: absent_def)

lemma StacksTransaction_serialize_layout:
  assumes "version tx = Some v" "chainId tx = Some cid" "auth tx = Some a"
    "anchorMode tx = Some am" "payload tx = Some pl"
    "Authorization_serialize C a = Inr ab"
    "LengthPrefixedList_serialize (PostCondition_serialize C) (postConditions tx) = Inr lb"
    "Payload_serialize C pl = Inr pb"
  shows "StacksTransaction_serialize C tx =
         Inr ([v] @ cid @ ab @ [am] @ [postConditionMode tx] @ lb @ pb)"
  using assms
  by (simp add: StacksTransaction_serialize_def bindE_def required_def appendHexString_def
      push_def concatBuffer_def)

lemma StacksTransaction_serialize_Inr:
  assumes "StacksTransaction_serialize C tx = Inr bs"
  shows "\<exists>v cid a am pl ab lb pb.
           version tx = Some v \<and> chainId tx = Some cid \<and> auth tx = Some a \<and>
           anchorMode tx = Some am \<and> payload tx = Some pl \<and>
           Authorization_serialize C a = Inr ab \<and>
           LengthPrefixedList_serialize (PostCondition_serialize C) (postConditions tx) = Inr lb \<and>
           Payload_serialize C pl = Inr pb \<and>
           bs = [v] @ cid @ ab @ [am] @ [postConditionMode tx] @ lb @ pb"
  using assms
  unfolding StacksTransaction_serialize_def bindE_def required_def appendHexString_def
      push_def concatBuffer_def Let_def
  by (auto split: option.splits sum.splits)

lemma instance_authorization_serialize:
  "SingleSigAuthorization_serialize instance_authorization =
     Inr (AuthType_Standard # bigEndian 8 0 @ bigEndian 8 0 @ replicate 65 0)"
  by (simp add: SingleSigAuthorization_serialize_def instance_authorization_def
      instance_condition_def bindE_def required_def toArrayLike_def del: bigEndian.simps)

lemma instance_payload_serialize:
  "CoinbasePayload_serialize instance_payload = Inr (PayloadType_Coinbase # replicate 32 0)"
  by (simp add: CoinbasePayload_serialize_def instance_payload_def bindE_def required_def
      )

lemma instance_postConditions_serialize:
  "LengthPrefixedList_serialize (PostCondition_serialize instance_collaborators) [instance_stx] =
     Inr ([0, 0, 0, 1] @
          [0x00, 5, 0x61, 0x6C, 0x69, 0x63, 0x65, 0x03, 0, 0, 0, 0, 0, 0x0F, 0x42, 0x40])"
  by (simp add: LengthPrefixedList_serialize_def bindE_def instance_serialize(1)
      concatBuffer_def bigEndian_numeral)

lemma instance_transaction_fields:
  "version instance_transaction = Some TransactionVersion_Testnet"
  "chainId instance_transaction = Some DEFAULT_CHAIN_ID"
  "auth instance_transaction = Some instance_authorization"
  "anchorMode instance_transaction = Some AnchorMode_OnChainOnly"
  "payload instance_transaction = Some instance_payload"
  "postConditionMode instance_transaction = PostConditionMode_Deny"
  "postConditions instance_transaction = [instance_stx]"
  by (simp_all add: instance_transaction_def addPostCondition_def StacksTransaction_new_payload
      instance_payload_def)

section \<open>C3: the order of the fields of a serialized transaction\<close>

text \<open>
  C3. When the five optional fields of a transaction are present and the authorization,
  the list of post-conditions and the payload serialize, \<open>serialize\<close> returns the
  version byte, the chain id, the authorization, the anchor mode byte, the
  post-condition mode byte, the post-condition list and the payload, concatenated in
  this order; and every buffer \<open>serialize\<close> returns is such a concatenation.
\<close>

theorem C3_serialize_order:
  "(version tx = Some v \<and> chainId tx = Some cid \<and> auth tx = Some a \<and>
    anchorMode tx = Some am \<and> payload tx = Some pl \<and>
    Authorization_serialize C a = Inr ab \<and>
    LengthPrefixedList_serialize (PostCondition_serialize C) (postConditions tx) = Inr lb \<and>
    Payload_serialize C pl = Inr pb \<longrightarrow>
      StacksTransaction_serialize C tx =
        Inr ([v] @ cid @ ab @ [am] @ [postConditionMode tx] @ lb @ pb)) \<and>
   (StacksTransaction_serialize C tx = Inr bs \<longrightarrow>
      (\<exists>v cid a am pl ab lb pb.
         version tx = Some v \<and> chainId tx = Some cid \<and> auth tx = Some a \<and>
         anchorMode tx = Some am \<and> payload tx = Some pl \<and>
         Authorization_serialize C a = Inr ab \<and>
         LengthPrefixedList_serialize (PostCondition_serialize C) (postConditions tx) = Inr lb \<and>
         Payload_serialize C pl = Inr pb \<and>
         bs = [v] @ cid @ ab @ [am] @ [postConditionMode tx] @ lb @ pb))"
proof (intro conjI impI)
  assume "version tx = Some v \<and> chainId tx = Some cid \<and> auth tx = Some a \<and>
    anchorMode tx = Some am \<and> payload tx = Some pl \<and>
    Authorization_serialize C a = Inr ab \<and>
    LengthPrefixedList_serialize (PostCondition_serialize C) (postConditions tx) = Inr lb \<and>
    Payload_serialize C pl = Inr pb"
  then show "StacksTransaction_serialize C tx =
        Inr ([v] @ cid @ ab @ [am] @ [postConditionMode tx] @ lb @ pb)"
    by (intro StacksTransaction_serialize_layout) blast+
next
  assume "StacksTransaction_serialize C tx = Inr bs"
  then show "\<exists>v cid a am pl ab lb pb.
         version tx = Some v \<and> chainId tx = Some cid \<and> auth tx = Some a \<and>
         anchorMode tx = Some am \<and> payload tx = Some pl \<and>
         Authorization_serialize C a = Inr ab \<and>
         LengthPrefixedList_serialize (PostCondition_serialize C) (postConditions tx) = Inr lb \<and>
         Payload_serialize C pl = Inr pb \<and>
         bs = [v] @ cid @ ab @ [am] @ [postConditionMode tx] @ lb @ pb"
    by (rule StacksTransaction_serialize_Inr)
qed

theorem C3_serialize_order_witness:
  "StacksTransaction_serialize instance_collaborators instance_transaction =
     Inr ([TransactionVersion_Testnet] @ DEFAULT_CHAIN_ID @
          (AuthType_Standard # bigEndian 8 0 @ bigEndian 8 0 @ replicate 65 0) @
          [AnchorMode_OnChainOnly] @ [PostConditionMode_Deny] @
          ([0, 0, 0, 1] @
           [0x00, 5, 0x61, 0x6C, 0x69, 0x63, 0x65, 0x03, 0, 0, 0, 0, 0, 0x0F, 0x42, 0x40]) @
          (PayloadType_Coinbase # replicate 32 0))"
proof -
  have h: "version instance_transaction = Some TransactionVersion_Testnet \<and>
    chainId instance_transaction = Some DEFAULT_CHAIN_ID \<and>
    auth instance_transaction = Some instance_authorization \<and>
    anchorMode instance_transaction = Some AnchorMode_OnChainOnly \<and>
    payload instance_transaction = Some instance_payload \<and>
    Authorization_serialize instance_collaborators instance_authorization =
      Inr (AuthType_Standard # bigEndian 8 0 @ bigEndian 8 0 @ replicate 65 0) \<and>
    LengthPrefixedList_serialize (PostCondition_serialize instance_collaborators)
      (postConditions instance_transaction) =
      Inr ([0, 0, 0, 1] @
           [0x00, 5, 0x61, 0x6C, 0x69, 0x63, 0x65, 0x03, 0, 0, 0, 0, 0, 0x0F, 0x42, 0x40]) \<and>
    Payload_serialize instance_collaborators instance_payload =
      Inr (PayloadType_Coinbase # replicate 32 0)"
    using instance_transaction_fields instance_authorization_serialize
      instance_payload_serialize instance_postConditions_serialize
    by (simp only: instance_types simp_thms)
  have "StacksTransaction_serialize instance_collaborators instance_transaction =
     Inr ([TransactionVersion_Testnet] @ DEFAULT_CHAIN_ID @
          (AuthType_Standard # bigEndian 8 0 @ bigEndian 8 0 @ replicate 65 0) @
          [AnchorMode_OnChainOnly] @ [postConditionMode instance_transaction] @
          ([0, 0, 0, 1] @
           [0x00, 5, 0x61, 0x6C, 0x69, 0x63, 0x65, 0x03, 0, 0, 0, 0, 0, 0x0F, 0x42, 0x40]) @
          (PayloadType_Coinbase # replicate 32 0))"
    by (rule C3_serialize_order [THEN conjunct1, rule_format, OF h])
  then show ?thesis
    by (simp only: instance_transaction_fields)
qed

section \<open>C4: serializing with a missing field\<close>








section \<open>C5: signing with a missing input\<close>

text \<open>
  C5. When the authorization, its spending condition, its type, the condition's fee rate
  or the condition's nonce is absent, \<open>signNextOrigin\<close> returns the error naming the
  first of them that is absent (in this order of checks), the transaction is as it was,
  and no call to \<open>nextSignature\<close> has been made. \<open>signAndAppend\<close> does the same for the
  fee rate and the nonce of the condition it is given, which is as it was.
\<close>

theorem C5_signing_preconditions:
  "(auth this = None \<longrightarrow>
      signNextOrigin S this sigHash privateKey = (Inl (Undefined ''auth''), this, [])) \<and>
   (auth this = Some a \<and> spendingCondition a = None \<longrightarrow>
      signNextOrigin S this sigHash privateKey =
        (Inl (Undefined ''auth.spendingCondition''), this, [])) \<and>
   (auth this = Some a \<and> spendingCondition a = Some c \<and> authType a = None \<longrightarrow>
      signNextOrigin S this sigHash privateKey =
        (Inl (Undefined ''auth.authType''), this, [])) \<and>
   (auth this = Some a \<and> spendingCondition a = Some c \<and> authType a = Some t \<and>
    feeRate c = None \<longrightarrow>
      signNextOrigin S this sigHash privateKey =
        (Inl (Undefined ''condition.feeRate''), this, [])) \<and>
   (auth this = Some a \<and> spendingCondition a = Some c \<and> authType a = Some t \<and>
    feeRate c = Some f \<and> nonce c = None \<longrightarrow>
      signNextOrigin S this sigHash privateKey =
        (Inl (Undefined ''condition.nonce''), this, [])) \<and>
   (feeRate condition = None \<longrightarrow>
      signAndAppend S condition curSigHash authType' privateKey =
        (Inl (Undefined ''condition.feeRate''), condition, [])) \<and>
   (feeRate condition = Some f' \<and> nonce condition = None \<longrightarrow>
      signAndAppend S condition curSigHash authType' privateKey =
        (Inl (Undefined ''condition.nonce''), condition, []))"
proof -
  have same: "this\<lparr>auth := Some (a\<lparr>spendingCondition := Some c\<rparr>)\<rparr> = this"
    if "auth this = Some a" "spendingCondition a = Some c" for a c
    using that by simp
  show ?thesis
    by (auto simp: signNextOrigin_def signAndAppend_def same)
qed

theorem C5_signing_preconditions_witness:
  "signNextOrigin instance_signing (instance_transaction\<lparr>auth := None\<rparr>) ''h0'' 7 =
     (Inl (Undefined ''auth''), instance_transaction\<lparr>auth := None\<rparr>, []) \<and>
   signNextOrigin instance_signing
     (instance_transaction\<lparr>auth := Some (instance_authorization\<lparr>spendingCondition := None\<rparr>)\<rparr>)
     ''h0'' 7 =
     (Inl (Undefined ''auth.spendingCondition''),
      instance_transaction\<lparr>auth := Some (instance_authorization\<lparr>spendingCondition := None\<rparr>)\<rparr>,
      []) \<and>
   signNextOrigin instance_signing
     (instance_transaction\<lparr>auth := Some (instance_authorization\<lparr>authType := None\<rparr>)\<rparr>)
     ''h0'' 7 =
     (Inl (Undefined ''auth.authType''),
      instance_transaction\<lparr>auth := Some (instance_authorization\<lparr>authType := None\<rparr>)\<rparr>, []) \<and>
   signNextOrigin instance_signing
     (instance_transaction
        \<lparr>auth := Some (instance_authorization
                        \<lparr>spendingCondition := Some (instance_condition\<lparr>feeRate := None\<rparr>)\<rparr>)\<rparr>)
     ''h0'' 7 =
     (Inl (Undefined ''condition.feeRate''),
      instance_transaction
        \<lparr>auth := Some (instance_authorization
                        \<lparr>spendingCondition := Some (instance_condition\<lparr>feeRate := None\<rparr>)\<rparr>)\<rparr>,
      []) \<and>
   signNextOrigin instance_signing
     (instance_transaction
        \<lparr>auth := Some (instance_authorization
                        \<lparr>spendingCondition := Some (instance_condition\<lparr>nonce := None\<rparr>)\<rparr>)\<rparr>)
     ''h0'' 7 =
     (Inl (Undefined ''condition.nonce''),
      instance_transaction
        \<lparr>auth := Some (instance_authorization
                        \<lparr>spendingCondition := Some (instance_condition\<lparr>nonce := None\<rparr>)\<rparr>)\<rparr>,
      []) \<and>
   signAndAppend instance_signing (instance_condition\<lparr>feeRate := None\<rparr>) ''h0''
     AuthType_Standard 7 =
     (Inl (Undefined ''condition.feeRate''), instance_condition\<lparr>feeRate := None\<rparr>, []) \<and>
   signAndAppend instance_signing (instance_condition\<lparr>nonce := None\<rparr>) ''h0''
     AuthType_Standard 7 =
     (Inl (Undefined ''condition.nonce''), instance_condition\<lparr>nonce := None\<rparr>, [])"
proof -
  note th = C5_signing_preconditions [where S = instance_signing and sigHash = "''h0''"
      and curSigHash = "''h0''" and privateKey = 7 and authType' = AuthType_Standard]
  have c: "feeRate instance_condition = Some 0" "nonce instance_condition = Some 0"
    by (simp_all add: instance_condition_def)
  have a: "authType instance_authorization = Some AuthType_Standard"
    "spendingCondition instance_authorization = Some instance_condition"
    by (simp_all add: instance_authorization_def)
  show ?thesis
    using th [where this = "instance_transaction\<lparr>auth := None\<rparr>", THEN conjunct1]
      th [where this = "instance_transaction
            \<lparr>auth := Some (instance_authorization\<lparr>spendingCondition := None\<rparr>)\<rparr>"
          and a = "instance_authorization\<lparr>spendingCondition := None\<rparr>",
          THEN conjunct2, THEN conjunct1]
      th [where this = "instance_transaction
            \<lparr>auth := Some (instance_authorization\<lparr>authType := None\<rparr>)\<rparr>"
          and a = "instance_authorization\<lparr>authType := None\<rparr>" and c = instance_condition,
          THEN conjunct2, THEN conjunct2, THEN conjunct1]
      th [where this = "instance_transaction
            \<lparr>auth := Some (instance_authorization
                  \<lparr>spendingCondition := Some (instance_condition\<lparr>feeRate := None\<rparr>)\<rparr>)\<rparr>"
          and a = "instance_authorization
                  \<lparr>spendingCondition := Some (instance_condition\<lparr>feeRate := None\<rparr>)\<rparr>"
          and c = "instance_condition\<lparr>feeRate := None\<rparr>" and t = AuthType_Standard,
          THEN conjunct2, THEN conjunct2, THEN conjunct2, THEN conjunct1]
      th [where this = "instance_transaction
            \<lparr>auth := Some (instance_authorization
                  \<lparr>spendingCondition := Some (instance_condition\<lparr>nonce := None\<rparr>)\<rparr>)\<rparr>"
          and a = "instance_authorization
                  \<lparr>spendingCondition := Some (instance_condition\<lparr>nonce := None\<rparr>)\<rparr>"
          and c = "instance_condition\<lparr>nonce := None\<rparr>" and t = AuthType_Standard and f = 0,
          THEN conjunct2, THEN conjunct2, THEN conjunct2, THEN conjunct2, THEN conjunct1]
      th [where condition = "instance_condition\<lparr>feeRate := None\<rparr>",
          THEN conjunct2, THEN conjunct2, THEN conjunct2, THEN conjunct2, THEN conjunct2,
          THEN conjunct1]
      th [where condition = "instance_condition\<lparr>nonce := None\<rparr>" and f' = 0,
          THEN conjunct2, THEN conjunct2, THEN conjunct2, THEN conjunct2, THEN conjunct2,
          THEN conjunct2]
      a c
    by simp
qed

section \<open>C6: the first sighash\<close>

text \<open>
  C6. For a transaction with an authorization that \<open>intoInitialSighashAuth\<close> strips,
  \<open>signBegin\<close> returns what \<open>txid\<close> returns for the transaction with the stripped
  authorization in place of its own, and \<open>txid\<close> is the hash of the serialization, or
  the error of the serialization; the transaction \<open>signBegin\<close> was called on is as it
  was, whatever the outcome.
\<close>

theorem C6_signBegin:
  "(auth this = Some a \<and> intoInitialSighashAuth C a = Inr a' \<longrightarrow>
      signBegin C this = (txid C (this\<lparr>auth := Some a'\<rparr>), this)) \<and>
   (StacksTransaction_serialize C (this\<lparr>auth := Some a'\<rparr>) = Inr serialized \<longrightarrow>
      txid C (this\<lparr>auth := Some a'\<rparr>) = Inr (txidFromData C serialized)) \<and>
   (StacksTransaction_serialize C (this\<lparr>auth := Some a'\<rparr>) = Inl e \<longrightarrow>
      txid C (this\<lparr>auth := Some a'\<rparr>) = Inl e) \<and>
   snd (signBegin C this) = this"
  by (simp add: signBegin_def cloneDeep_def txid_def bindE_def required_def Let_def)

section \<open>C7: signing a single-sig condition\<close>

text \<open>
  C7. For a single-sig condition with a fee rate and a nonce, \<open>signAndAppend\<close> calls
  \<open>nextSignature\<close> once, on the current sighash, the authorization type, the fee rate,
  the nonce and the private key; when that call returns a signature and a next sighash,
  the condition has that signature in its \<open>signature\<close> field, its other fields are as
  they were, and the next sighash is the result.
\<close>

theorem C7_signAndAppend:
  "singleSig S condition \<and> feeRate condition = Some f \<and> nonce condition = Some n \<and>
   nextSignature S curSigHash authType' f n privateKey = Inr (nextSig, nextSigHash) \<longrightarrow>
     signAndAppend S condition curSigHash authType' privateKey =
       (Inr nextSigHash, condition\<lparr>signature := nextSig\<rparr>,
        [NextSignature curSigHash authType' f n privateKey])"
  by (simp add: signAndAppend_def)

theorem C7_signAndAppend_witness:
  "singleSig instance_signing instance_condition \<and>
   nextSignature instance_signing ''h0'' AuthType_Standard 0 0 7 =
     Inr (replicate 65 7, ''h0+'') \<and>
   signAndAppend instance_signing instance_condition ''h0'' AuthType_Standard 7 =
     (Inr ''h0+'', instance_condition\<lparr>signature := replicate 65 7\<rparr>,
      [NextSignature ''h0'' AuthType_Standard 0 0 7])"
proof -
  have h: "singleSig instance_signing instance_condition \<and>
      feeRate instance_condition = Some 0 \<and> nonce instance_condition = Some 0 \<and>
      nextSignature instance_signing ''h0'' AuthType_Standard 0 0 7 =
        Inr (replicate 65 7, ''h0+'')"
    by (simp add: instance_signing_def instance_condition_def)
  from C7_signAndAppend [rule_format, OF h] h show ?thesis by blast
qed

lemma instance_signed_stripped:
  "instance_signed\<lparr>auth := Some instance_authorization\<rparr> = instance_transaction"
  by (simp add: instance_signed_def instance_transaction_def addPostCondition_def
      StacksTransaction_new_payload)

lemma instance_transaction_serialize:
  "StacksTransaction_serialize instance_collaborators instance_transaction =
     Inr (TransactionVersion_Testnet #
          DEFAULT_CHAIN_ID @
          (AuthType_Standard # bigEndian 8 0 @ bigEndian 8 0 @ replicate 65 0) @
          [AnchorMode_OnChainOnly] @ [PostConditionMode_Deny] @
          ([0, 0, 0, 1] @
           [0x00, 5, 0x61, 0x6C, 0x69, 0x63, 0x65, 0x03, 0, 0, 0, 0, 0, 0x0F, 0x42, 0x40]) @
          (PayloadType_Coinbase # replicate 32 0))"
proof -
  have "StacksTransaction_serialize instance_collaborators instance_transaction =
     Inr ([TransactionVersion_Testnet] @ DEFAULT_CHAIN_ID @
          (AuthType_Standard # bigEndian 8 0 @ bigEndian 8 0 @ replicate 65 0) @
          [AnchorMode_OnChainOnly] @ [postConditionMode instance_transaction] @
          ([0, 0, 0, 1] @
           [0x00, 5, 0x61, 0x6C, 0x69, 0x63, 0x65, 0x03, 0, 0, 0, 0, 0, 0x0F, 0x42, 0x40]) @
          (PayloadType_Coinbase # replicate 32 0))"
    using instance_transaction_fields instance_authorization_serialize
      instance_payload_serialize instance_postConditions_serialize
    by (intro StacksTransaction_serialize_layout) (simp_all only: instance_types simp_thms)
  then show ?thesis
    by (simp only: instance_transaction_fields append_Cons append_Nil)
qed

theorem C6_signBegin_witness:
  "auth instance_signed =
     Some (instance_authorization
             \<lparr>spendingCondition := Some (instance_condition\<lparr>signature := replicate 65 7\<rparr>)\<rparr>) \<and>
   intoInitialSighashAuth instance_collaborators
     (instance_authorization
        \<lparr>spendingCondition := Some (instance_condition\<lparr>signature := replicate 65 7\<rparr>)\<rparr>) =
     Inr instance_authorization \<and>
   signBegin instance_collaborators instance_signed =
     (txid instance_collaborators instance_transaction, instance_signed) \<and>
   txid instance_collaborators instance_transaction =
     Inr (checksum
           (TransactionVersion_Testnet #
            DEFAULT_CHAIN_ID @
            (AuthType_Standard # bigEndian 8 0 @ bigEndian 8 0 @ replicate 65 0) @
            [AnchorMode_OnChainOnly] @ [PostConditionMode_Deny] @
            ([0, 0, 0, 1] @
             [0x00, 5, 0x61, 0x6C, 0x69, 0x63, 0x65, 0x03, 0, 0, 0, 0, 0, 0x0F, 0x42, 0x40]) @
            (PayloadType_Coinbase # replicate 32 0)))"
proof -
  have a: "auth instance_signed =
     Some (instance_authorization
             \<lparr>spendingCondition := Some (instance_condition\<lparr>signature := replicate 65 7\<rparr>)\<rparr>)"
    by (simp add: instance_signed_def)
  have i: "intoInitialSighashAuth instance_collaborators
     (instance_authorization
        \<lparr>spendingCondition := Some (instance_condition\<lparr>signature := replicate 65 7\<rparr>)\<rparr>) =
     Inr instance_authorization"
    by (simp add: SingleSigAuthorization_clear_def instance_authorization_def
        instance_condition_def)
  note th = C6_signBegin [where this = instance_signed and C = instance_collaborators
      and a' = instance_authorization, unfolded instance_signed_stripped]
  from th [THEN conjunct1, rule_format, OF conjI, OF a i]
    th [THEN conjunct2, THEN conjunct1, rule_format, OF instance_transaction_serialize]
    a i
  show ?thesis
    by (simp only: instance_types simp_thms)
qed

lemma readHexByte_Inr:
  assumes "readHexByte r = Inr (x, r')"
  shows "index r < length (buffer r) \<and> x = buffer r ! index r"
proof -
  from assms have l: "index r + 1 \<le> length (buffer r)"
    and t: "take 1 (drop (index r) (buffer r)) = [x]"
    by (auto simp: readHexByte_def read_def bindE_def split: if_splits list.splits)
  from l have "index r < length (buffer r)" by simp
  moreover from this have "drop (index r) (buffer r) =
      buffer r ! index r # drop (Suc (index r)) (buffer r)"
    by (simp add: Cons_nth_drop_Suc)
  then have "take 1 (drop (index r) (buffer r)) = [buffer r ! index r]"
    by simp
  ultimately show ?thesis using t by simp
qed

lemma StacksTransaction_deserialize_version:
  assumes "StacksTransaction_deserialize C this r = Inr (tx', r')"
  shows "index r < length (buffer r) \<and>
         version tx' = Some (if buffer r ! index r = TransactionVersion_Mainnet
                             then TransactionVersion_Mainnet else TransactionVersion_Testnet)"
proof -
  from assms obtain v r1 where v: "readHexByte r = Inr (v, r1)"
    and tx': "version tx' = Some (if v = TransactionVersion_Mainnet
                             then TransactionVersion_Mainnet else TransactionVersion_Testnet)"
    unfolding StacksTransaction_deserialize_def bindE_def Let_def
    by (auto split: sum.splits prod.splits)
  from readHexByte_Inr [OF v] tx' show ?thesis by simp
qed


lemma StacksTransaction_new_assigned_version:
  "StacksTransaction_new None None None
     \<lparr>version := vv, chainId := chainId tx, auth := auth tx,
      anchorMode := anchorMode tx, postConditionMode := postConditionMode tx,
      postConditions := pcs, payload := payload tx\<rparr> = tx\<lparr>postConditions := pcs, version := vv\<rparr>"
  by (cases tx) (simp add: StacksTransaction_new_def)

lemma StacksTransaction_read_any_version:
  assumes wf: "StacksTransaction_wellFormed C tx"
    and ser: "StacksTransaction_serialize C tx = Inr (v # body)"
  shows "StacksTransaction_read C (readerAt pre ((b # body) @ rest)) =
         Inr ((StacksTransaction_variantFields tx)
                \<lparr>version := Some (if b = TransactionVersion_Mainnet
                                   then TransactionVersion_Mainnet
                                   else TransactionVersion_Testnet)\<rparr>,
              readerAt (pre @ b # body) rest)"
proof -
  from wf obtain v' cid a am pl ab lb pb where
    cid: "chainId tx = Some cid" "length cid = 4"
    and a: "auth tx = Some a" and am: "anchorMode tx = Some am" and pl: "payload tx = Some pl"
    and da: "decodes (Authorization_deserialize C) ab a"
    and dl: "decodes (LengthPrefixedList_deserialize (PostCondition_read C)) lb
               (map PostCondition_variantFields (postConditions tx))"
    and dp: "decodes (Payload_deserialize C) pb pl"
    and s: "StacksTransaction_serialize C tx =
              Inr (v' # cid @ ab @ am # postConditionMode tx # lb @ pb)"
    by (rule StacksTransaction_wellFormed_serialize)
  from s ser have body: "body = cid @ ab @ am # postConditionMode tx # lb @ pb" by simp
  show ?thesis
    unfolding body StacksTransaction_read_def StacksTransaction_variantFields_def
    using StacksTransaction_decodes [OF cid(2) da dl dp, of "StacksTransaction_new None None None"
        pre b am "postConditionMode tx" rest]
      StacksTransaction_new_assigned_version
        [where vv = "Some (if b = TransactionVersion_Mainnet then TransactionVersion_Mainnet
                   else TransactionVersion_Testnet)" and tx = tx
            and pcs = "map PostCondition_variantFields (postConditions tx)"]
      cid(1) a am pl
    by simp
qed

lemma instance_transaction_variantFields:
  "StacksTransaction_variantFields instance_transaction = instance_transaction"
  by (rule StacksTransaction_variantFields_id)
     (simp add: instance_transaction_fields instance_noForeignField)

section \<open>C8: decoding the version byte\<close>

text \<open>
  C8. Whenever \<open>deserialize\<close> returns a transaction, the reader had a byte under its
  cursor and the version of the transaction is Mainnet when that byte is the mainnet tag
  and Testnet for every other byte. No byte value makes the decoding fail: with any byte
  \<open>b\<close> in the place of the version byte of a serialized well-formed transaction,
  \<open>deserialize\<close> returns that transaction with the version so decoded from \<open>b\<close>.
\<close>

theorem C8_version_decoding:
  "(StacksTransaction_deserialize C this r = Inr (tx', r') \<longrightarrow>
      index r < length (buffer r) \<and>
      version tx' = Some (if buffer r ! index r = TransactionVersion_Mainnet
                          then TransactionVersion_Mainnet else TransactionVersion_Testnet)) \<and>
   (StacksTransaction_wellFormed C tx \<and>
    StacksTransaction_serialize C tx = Inr (v # body) \<longrightarrow>
      StacksTransaction_read C (readerAt pre ((b # body) @ rest)) =
        Inr ((StacksTransaction_variantFields tx)
               \<lparr>version := Some (if b = TransactionVersion_Mainnet
                                  then TransactionVersion_Mainnet
                                  else TransactionVersion_Testnet)\<rparr>,
             readerAt (pre @ b # body) rest))"
  using StacksTransaction_deserialize_version [of C this r tx' r']
    StacksTransaction_read_any_version [of C tx v body pre b rest]
  by simp

theorem C8_version_decoding_witness:
  "StacksTransaction_read instance_collaborators
     (readerAt []
        (0x42 #
         DEFAULT_CHAIN_ID @
         (AuthType_Standard # bigEndian 8 0 @ bigEndian 8 0 @ replicate 65 0) @
         [AnchorMode_OnChainOnly] @ [PostConditionMode_Deny] @
         ([0, 0, 0, 1] @
          [0x00, 5, 0x61, 0x6C, 0x69, 0x63, 0x65, 0x03, 0, 0, 0, 0, 0, 0x0F, 0x42, 0x40]) @
         (PayloadType_Coinbase # replicate 32 0))) =
   Inr (instance_transaction,
        readerAt
          (0x42 #
           DEFAULT_CHAIN_ID @
           (AuthType_Standard # bigEndian 8 0 @ bigEndian 8 0 @ replicate 65 0) @
           [AnchorMode_OnChainOnly] @ [PostConditionMode_Deny] @
           ([0, 0, 0, 1] @
            [0x00, 5, 0x61, 0x6C, 0x69, 0x63, 0x65, 0x03, 0, 0, 0, 0, 0, 0x0F, 0x42, 0x40]) @
           (PayloadType_Coinbase # replicate 32 0)) []) \<and>
   version instance_transaction = Some TransactionVersion_Testnet \<and>
   (0x42 :: byte) \<noteq> TransactionVersion_Mainnet \<and> (0x42 :: byte) \<noteq> TransactionVersion_Testnet"
proof -
  let ?body = "DEFAULT_CHAIN_ID @
         (AuthType_Standard # bigEndian 8 0 @ bigEndian 8 0 @ replicate 65 0) @
         [AnchorMode_OnChainOnly] @ [PostConditionMode_Deny] @
         ([0, 0, 0, 1] @
          [0x00, 5, 0x61, 0x6C, 0x69, 0x63, 0x65, 0x03, 0, 0, 0, 0, 0, 0x0F, 0x42, 0x40]) @
         (PayloadType_Coinbase # replicate 32 0)"
  have h: "StacksTransaction_wellFormed instance_collaborators instance_transaction \<and>
      StacksTransaction_serialize instance_collaborators instance_transaction =
        Inr (TransactionVersion_Testnet # ?body)"
    using instance_transaction_wellFormed instance_transaction_serialize by (rule conjI)
  have n: "(0x42 :: byte) \<noteq> TransactionVersion_Mainnet"
    "(0x42 :: byte) \<noteq> TransactionVersion_Testnet"
    by (simp_all add: TransactionVersion_Mainnet_def TransactionVersion_Testnet_def)
  have e: "instance_transaction\<lparr>version := Some TransactionVersion_Testnet\<rparr> =
           instance_transaction"
    by (simp add: instance_transaction_def addPostCondition_def StacksTransaction_new_payload)
  have "StacksTransaction_read instance_collaborators (readerAt [] ((0x42 # ?body) @ [])) =
        Inr ((StacksTransaction_variantFields instance_transaction)
               \<lparr>version := Some (if (0x42 :: byte) = TransactionVersion_Mainnet
                                  then TransactionVersion_Mainnet
                                  else TransactionVersion_Testnet)\<rparr>,
             readerAt ([] @ 0x42 # ?body) [])"
    by (rule C8_version_decoding [THEN conjunct2, rule_format, OF h])
  then have "StacksTransaction_read instance_collaborators (readerAt [] (0x42 # ?body)) =
        Inr (instance_transaction, readerAt (0x42 # ?body) [])"
    by (simp only: instance_transaction_variantFields n if_False e append_Nil append_Nil2)
  then show ?thesis
    using n instance_transaction_fields(1) by (simp only: simp_thms)
qed

section \<open>C9: the defaults of the constructor\<close>

text \<open>
  C9. A transaction constructed with a payload has the version, the authorization and
  the payload it was given, the default chain id, the post-condition mode Deny, no
  post-condition, and the anchor mode "on-chain only" when the payload's type is
  Coinbase or PoisonMicroblock and "any" otherwise.
\<close>

theorem C9_constructor_defaults:
  "StacksTransaction_new v a (Some p) =
     \<lparr>version = v,
      chainId = Some DEFAULT_CHAIN_ID,
      auth = a,
      anchorMode = Some (if payloadType p = Some PayloadType_Coinbase \<or>
                            payloadType p = Some PayloadType_PoisonMicroblock
                         then AnchorMode_OnChainOnly else AnchorMode_Any),
      payload = Some p,
      postConditionMode = PostConditionMode_Deny,
      postConditions = []\<rparr>"
  by (rule StacksTransaction_new_payload)

theorem C9_constructor_defaults_witness:
  "(StacksTransaction_new (Some TransactionVersion_Testnet) (Some instance_authorization)
      (Some instance_payload) :: InstanceTransaction) =
     \<lparr>version = Some TransactionVersion_Testnet, chainId = Some [0, 0, 0, 0],
      auth = Some instance_authorization, anchorMode = Some AnchorMode_OnChainOnly,
      payload = Some instance_payload, postConditionMode = PostConditionMode_Deny,
      postConditions = []\<rparr> \<and>
   (StacksTransaction_new (Some TransactionVersion_Testnet) (Some instance_authorization)
      (Some (instance_payload\<lparr>payloadType := Some PayloadType_PoisonMicroblock\<rparr>))
      :: InstanceTransaction) =
     \<lparr>version = Some TransactionVersion_Testnet, chainId = Some [0, 0, 0, 0],
      auth = Some instance_authorization, anchorMode = Some AnchorMode_OnChainOnly,
      payload = Some (instance_payload\<lparr>payloadType := Some PayloadType_PoisonMicroblock\<rparr>),
      postConditionMode = PostConditionMode_Deny, postConditions = []\<rparr> \<and>
   (StacksTransaction_new (Some TransactionVersion_Testnet) (Some instance_authorization)
      (Some (instance_payload\<lparr>payloadType := Some PayloadType_TokenTransfer\<rparr>))
      :: InstanceTransaction) =
     \<lparr>version = Some TransactionVersion_Testnet, chainId = Some [0, 0, 0, 0],
      auth = Some instance_authorization, anchorMode = Some AnchorMode_Any,
      payload = Some (instance_payload\<lparr>payloadType := Some PayloadType_TokenTransfer\<rparr>),
      postConditionMode = PostConditionMode_Deny, postConditions = []\<rparr>"
proof -
  have p: "payloadType instance_payload = Some PayloadType_Coinbase"
    "payloadType (instance_payload\<lparr>payloadType := Some PayloadType_PoisonMicroblock\<rparr>) =
       Some PayloadType_PoisonMicroblock"
    "payloadType (instance_payload\<lparr>payloadType := Some PayloadType_TokenTransfer\<rparr>) =
       Some PayloadType_TokenTransfer"
    by (simp_all add: instance_payload_def)
  have n: "PayloadType_TokenTransfer \<noteq> PayloadType_Coinbase"
    "PayloadType_TokenTransfer \<noteq> PayloadType_PoisonMicroblock"
    by (simp_all add: PayloadType_TokenTransfer_def PayloadType_Coinbase_def
        PayloadType_PoisonMicroblock_def)
  show ?thesis
    by (simp only: C9_constructor_defaults p n DEFAULT_CHAIN_ID_def option.inject
        simp_thms if_True if_False)
qed

section \<open>C10: a transaction constructed without a payload\<close>

text \<open>
  C10. The constructor called without a payload leaves the anchor mode absent; a
  transaction whose version, chain id and authorization are present and whose anchor mode
  is absent does not serialize, and the error names the anchor mode; so the transaction
  the constructor makes from a version and an authorization alone does not serialize.
\<close>

theorem C10_no_payload:
  "anchorMode (StacksTransaction_new v a None) = None \<and>
   (version tx = Some v' \<and> chainId tx = Some cid \<and> auth tx = Some a' \<and>
    anchorMode tx = None \<longrightarrow>
      StacksTransaction_serialize C tx = Inl (Undefined ''anchorMode'')) \<and>
   StacksTransaction_serialize C (StacksTransaction_new (Some v') (Some a') None) =
     Inl (Undefined ''anchorMode'')"
  by (simp add: StacksTransaction_new_def StacksTransaction_serialize_def bindE_def required_def)

theorem C10_no_payload_witness:
  "anchorMode (StacksTransaction_new (Some TransactionVersion_Testnet)
                 (Some instance_authorization) None :: InstanceTransaction) = None \<and>
   anchorMode (instance_transaction\<lparr>payload := None, anchorMode := None\<rparr>) = None \<and>
   StacksTransaction_serialize instance_collaborators
     (instance_transaction\<lparr>payload := None, anchorMode := None\<rparr>) =
     Inl (Undefined ''anchorMode'') \<and>
   StacksTransaction_serialize instance_collaborators
     (StacksTransaction_new (Some TransactionVersion_Testnet) (Some instance_authorization) None) =
     Inl (Undefined ''anchorMode'')"
proof -
  have h: "version (instance_transaction\<lparr>payload := None, anchorMode := None\<rparr>) =
             Some TransactionVersion_Testnet \<and>
           chainId (instance_transaction\<lparr>payload := None, anchorMode := None\<rparr>) =
             Some DEFAULT_CHAIN_ID \<and>
           auth (instance_transaction\<lparr>payload := None, anchorMode := None\<rparr>) =
             Some instance_authorization \<and>
           anchorMode (instance_transaction\<lparr>payload := None, anchorMode := None\<rparr>) = None"
    by (simp add: instance_transaction_fields)
  note th = C10_no_payload [where tx = "instance_transaction\<lparr>payload := None, anchorMode := None\<rparr>"
      and v = "Some TransactionVersion_Testnet" and a = "Some instance_authorization"
      and v' = TransactionVersion_Testnet and cid = DEFAULT_CHAIN_ID
      and a' = instance_authorization and C = instance_collaborators]
  from th [THEN conjunct1] th [THEN conjunct2, THEN conjunct1, rule_format, OF h]
    th [THEN conjunct2, THEN conjunct2] h
  show ?thesis by blast
qed

end
